theory Spec2Isabelle
  imports Main "HOL-Library.Word"
begin

section \<open>JavaScript strings\<close>

text \<open>
  A JavaScript string is a sequence of UTF-16 code units. The prompt glyph U+276F of
  \<^verbatim>\<open>terminal-parser.ts\<close> is one code unit, so the model keeps code units rather
  than bytes. \<open>ascii\<close> embeds a literal of the source.
\<close>

type_synonym jsstring = "16 word list"

definition ascii :: "string \<Rightarrow> jsstring" where
  "ascii s = map of_char s"

text \<open>
  White space and line terminators of ECMAScript: what \<^verbatim>\<open>String.prototype.trim\<close>
  removes and what \<^verbatim>\<open>\s\<close> matches in a regular expression.
\<close>

definition isWhiteSpace :: "16 word \<Rightarrow> bool" where
  "isWhiteSpace c =
     (c = 0x09 \<or> c = 0x0A \<or> c = 0x0B \<or> c = 0x0C \<or> c = 0x0D \<or> c = 0x20 \<or> c = 0xA0
      \<or> c = 0x1680 \<or> (0x2000 \<le> c \<and> c \<le> 0x200A) \<or> c = 0x2028 \<or> c = 0x2029
      \<or> c = 0x202F \<or> c = 0x205F \<or> c = 0x3000 \<or> c = 0xFEFF)"

definition trim :: "jsstring \<Rightarrow> jsstring" where
  "trim s = rev (dropWhile isWhiteSpace (rev (dropWhile isWhiteSpace s)))"

definition startsWith :: "jsstring \<Rightarrow> jsstring \<Rightarrow> bool" where
  "startsWith s p = (take (length p) s = p)"

definition endsWith :: "jsstring \<Rightarrow> jsstring \<Rightarrow> bool" where
  "endsWith s p = (length p \<le> length s \<and> drop (length s - length p) s = p)"

fun includesStr :: "jsstring \<Rightarrow> jsstring \<Rightarrow> bool" where
  "includesStr [] p = (p = [])"
| "includesStr (c # cs) p = (startsWith (c # cs) p \<or> includesStr cs p)"

text \<open>\<^verbatim>\<open>s.split('\n')\<close>: always at least one piece.\<close>

fun split_nl :: "jsstring \<Rightarrow> jsstring list" where
  "split_nl [] = [[]]"
| "split_nl (c # cs) =
     (if c = 0x0A then [] # split_nl cs
      else (case split_nl cs of [] \<Rightarrow> [[c]] | l # ls \<Rightarrow> (c # l) # ls))"

text \<open>\<^verbatim>\<open>lines.join('\n')\<close>.\<close>

fun join_nl :: "jsstring list \<Rightarrow> jsstring" where
  "join_nl [] = []"
| "join_nl [l] = l"
| "join_nl (l # ls) = l @ 0x0A # join_nl ls"

section \<open>The accumulator of the structured-event grammar (cli-parser.ts)\<close>

text \<open>
  \<^verbatim>\<open>
  export class MessageAccumulator {
    private currentMessage: string = '';
    private isStreaming: boolean = false;
    reset(): void { this.currentMessage = ''; this.isStreaming = false; }
    addChunk(content: string): string {
      this.currentMessage += content; this.isStreaming = true; return this.currentMessage; }
    complete(): string { this.isStreaming = false; return this.currentMessage; }
    getCurrentMessage(): string { return this.currentMessage; }
    isCurrentlyStreaming(): boolean { return this.isStreaming; }
  }
  \<close>
  Every method takes the object and returns its result with the object as it is afterwards.
\<close>

record MessageAccumulator =
  currentMessage :: jsstring
  isStreaming :: bool

definition new_MessageAccumulator :: MessageAccumulator where
  "new_MessageAccumulator = \<lparr>currentMessage = [], isStreaming = False\<rparr>"

definition MessageAccumulator_reset :: "MessageAccumulator \<Rightarrow> MessageAccumulator" where
  "MessageAccumulator_reset a = a\<lparr>currentMessage := [], isStreaming := False\<rparr>"

definition MessageAccumulator_addChunk ::
  "jsstring \<Rightarrow> MessageAccumulator \<Rightarrow> jsstring \<times> MessageAccumulator" where
  "MessageAccumulator_addChunk content a =
     (let a' = a\<lparr>currentMessage := currentMessage a @ content, isStreaming := True\<rparr>
      in (currentMessage a', a'))"

definition MessageAccumulator_complete ::
  "MessageAccumulator \<Rightarrow> jsstring \<times> MessageAccumulator" where
  "MessageAccumulator_complete a = (currentMessage a, a\<lparr>isStreaming := False\<rparr>)"

definition getCurrentMessage :: "MessageAccumulator \<Rightarrow> jsstring" where
  "getCurrentMessage a = currentMessage a"

definition isCurrentlyStreaming :: "MessageAccumulator \<Rightarrow> bool" where
  "isCurrentlyStreaming a = isStreaming a"

text \<open>A run of \<open>addChunk\<close> calls: the values returned, in order, and the object afterwards.\<close>

fun addChunks :: "jsstring list \<Rightarrow> MessageAccumulator \<Rightarrow> jsstring list \<times> MessageAccumulator" where
  "addChunks [] a = ([], a)"
| "addChunks (c # cs) a =
     (let (r, a') = MessageAccumulator_addChunk c a;
          (rs, a'') = addChunks cs a'
      in (r # rs, a''))"

section \<open>Properties of the accumulator\<close>

lemma addChunks_length: "length (fst (addChunks cs a)) = length cs"
  by (induction cs arbitrary: a)
     (simp_all add: MessageAccumulator_addChunk_def Let_def split_beta)

lemma addChunks_message:
  "currentMessage (snd (addChunks cs a)) = currentMessage a @ concat cs"
  by (induction cs arbitrary: a)
     (simp_all add: MessageAccumulator_addChunk_def Let_def split_beta)

lemma addChunks_nth:
  "i < length cs \<Longrightarrow>
   fst (addChunks cs a) ! i = currentMessage a @ concat (take (Suc i) cs)"
proof (induction cs arbitrary: a i)
  case Nil
  then show ?case by simp
next
  case (Cons c cs)
  show ?case
  proof (cases i)
    case 0
    then show ?thesis
      by (simp add: MessageAccumulator_addChunk_def Let_def split_beta)
  next
    case (Suc j)
    with Cons.prems have "j < length cs" by simp
    from Cons.IH [OF this] Suc show ?thesis
      by (simp add: MessageAccumulator_addChunk_def Let_def split_beta)
  qed
qed

text \<open>
  C2 (as stated, refuted). The claim says that \<open>complete()\<close> resets the message to the
  empty string. After one chunk \<open>"Hel"\<close> and \<open>complete()\<close>, \<open>getCurrentMessage()\<close> still
  returns \<open>"Hel"\<close>: \<open>complete\<close> only clears the streaming flag.
\<close>

theorem C2_complete_keeps_message_counterexample:
  "getCurrentMessage
     (snd (MessageAccumulator_complete
        (snd (MessageAccumulator_addChunk (ascii ''Hel'') new_MessageAccumulator))))
   \<noteq> []"
  by (simp add: getCurrentMessage_def MessageAccumulator_complete_def
      MessageAccumulator_addChunk_def new_MessageAccumulator_def ascii_def Let_def)

text \<open>
  C2 (amended). Starting from a fresh accumulator, the i-th call of \<open>addChunk\<close> returns the
  concatenation of the chunks added so far; \<open>complete()\<close> then returns the whole
  concatenation, clears only the streaming flag and leaves the message in place (a later
  \<open>getCurrentMessage\<close> returns it again and a later \<open>addChunk\<close> appends to it); it is
  \<open>reset()\<close>, which the caller invokes after \<open>complete()\<close>, that empties the message.
\<close>

theorem C2_accumulator_amended:
  "length (fst (addChunks cs new_MessageAccumulator)) = length cs
   \<and> (\<forall>i < length cs.
        fst (addChunks cs new_MessageAccumulator) ! i = concat (take (Suc i) cs))
   \<and> fst (MessageAccumulator_complete (snd (addChunks cs new_MessageAccumulator))) = concat cs
   \<and> getCurrentMessage
        (snd (MessageAccumulator_complete (snd (addChunks cs new_MessageAccumulator))))
       = concat cs
   \<and> \<not> isCurrentlyStreaming
        (snd (MessageAccumulator_complete (snd (addChunks cs new_MessageAccumulator))))
   \<and> fst (MessageAccumulator_addChunk c
        (snd (MessageAccumulator_complete (snd (addChunks cs new_MessageAccumulator)))))
       = concat cs @ c
   \<and> getCurrentMessage
        (MessageAccumulator_reset
          (snd (MessageAccumulator_complete (snd (addChunks cs new_MessageAccumulator)))))
       = []"
proof -
  have m: "currentMessage (snd (addChunks cs new_MessageAccumulator)) = concat cs"
    by (simp add: addChunks_message new_MessageAccumulator_def)
  have n: "\<forall>i < length cs.
      fst (addChunks cs new_MessageAccumulator) ! i = concat (take (Suc i) cs)"
    by (simp add: addChunks_nth new_MessageAccumulator_def)
  from m n show ?thesis
    by (simp add: addChunks_length MessageAccumulator_complete_def getCurrentMessage_def
        isCurrentlyStreaming_def MessageAccumulator_addChunk_def MessageAccumulator_reset_def
        Let_def)
qed

theorem C2_accumulator_amended_witness:
  "fst (addChunks [ascii ''Hel'', ascii ''lo '', ascii ''world''] new_MessageAccumulator)
     = [ascii ''Hel'', ascii ''Hello '', ascii ''Hello world'']
   \<and> fst (MessageAccumulator_complete
        (snd (addChunks [ascii ''Hel'', ascii ''lo '', ascii ''world''] new_MessageAccumulator)))
     = ascii ''Hello world''
   \<and> getCurrentMessage (snd (MessageAccumulator_complete
        (snd (addChunks [ascii ''Hel'', ascii ''lo '', ascii ''world''] new_MessageAccumulator))))
     = ascii ''Hello world''"
proof -
  let ?cs = "[ascii ''Hel'', ascii ''lo '', ascii ''world'']"
  note t = C2_accumulator_amended [of ?cs "[]"]
  have c: "concat ?cs = ascii ''Hello world''"
    by (simp add: ascii_def)
  have l: "fst (addChunks ?cs new_MessageAccumulator)
      = [ascii ''Hel'', ascii ''Hello '', ascii ''Hello world'']"
    by (simp add: MessageAccumulator_addChunk_def new_MessageAccumulator_def Let_def ascii_def)
  from t c l show ?thesis by simp
qed

section \<open>The raw-terminal grammar: prompt detection (terminal-parser.ts)\<close>

text \<open>
  \<^verbatim>\<open>
  const ANSI_REGEX = /\x1b\[[0-9;]*[a-zA-Z]/g;
  export function stripAnsi(text: string): string { return text.replace(ANSI_REGEX, ''); }
  \<close>
  \<open>matchAnsi\<close> is one match of the expression at the start of a string, returning what
  follows the match. The class \<^verbatim>\<open>[0-9;]\<close> and the class \<^verbatim>\<open>[a-zA-Z]\<close> are
  disjoint, so the greedy star can only stop at the end of the run of parameter characters.
  \<open>stripAnsi\<close> is the global replacement: scan from the left, drop each match and go on
  after it.
\<close>

definition isAnsiParam :: "16 word \<Rightarrow> bool" where
  "isAnsiParam c = ((0x30 \<le> c \<and> c \<le> 0x39) \<or> c = 0x3B)"

definition isAsciiLetter :: "16 word \<Rightarrow> bool" where
  "isAsciiLetter c = ((0x41 \<le> c \<and> c \<le> 0x5A) \<or> (0x61 \<le> c \<and> c \<le> 0x7A))"

definition matchAnsi :: "jsstring \<Rightarrow> jsstring option" where
  "matchAnsi s =
     (case s of
        e # b # r \<Rightarrow>
          if e = 0x1B \<and> b = 0x5B then
            (case dropWhile isAnsiParam r of
               [] \<Rightarrow> None
             | l # rest \<Rightarrow> if isAsciiLetter l then Some rest else None)
          else None
      | _ \<Rightarrow> None)"

lemma matchAnsi_shorter: "matchAnsi s = Some rest \<Longrightarrow> length rest < length s"
proof -
  assume "matchAnsi s = Some rest"
  then obtain e b r l where s: "s = e # b # r" and d: "dropWhile isAnsiParam r = l # rest"
    by (auto simp: matchAnsi_def split: list.splits if_splits)
  have "length (dropWhile isAnsiParam r) \<le> length r"
    by (rule length_dropWhile_le)
  with d s show ?thesis by simp
qed

function stripAnsi :: "jsstring \<Rightarrow> jsstring" where
  "stripAnsi [] = []"
| "stripAnsi (c # cs) =
     (case matchAnsi (c # cs) of
        Some rest \<Rightarrow> stripAnsi rest
      | None \<Rightarrow> c # stripAnsi cs)"
  by pat_completeness auto
termination
  by (relation "measure length") (auto dest: matchAnsi_shorter)

text \<open>
  \<^verbatim>\<open>
  export function isPromptLine(line: string): boolean {
    const clean = stripAnsi(line).trim();
    return clean === '>' || clean === '\<dots>' || clean.endsWith('> ')
        || clean.match(/^[>\<dots>]\s*$/) !== null;
  }
  \<close>
  where \<^verbatim>\<open>\<dots>\<close> stands for the glyph U+276F. \<open>promptRegex\<close> is the last disjunct: one
  glyph, then white space up to the end of the string.
\<close>

definition promptRegex :: "jsstring \<Rightarrow> bool" where
  "promptRegex s =
     (case s of
        [] \<Rightarrow> False
      | c # r \<Rightarrow> (c = 0x3E \<or> c = 0x276F) \<and> list_all isWhiteSpace r)"

definition isPromptLine :: "jsstring \<Rightarrow> bool" where
  "isPromptLine line =
     (let clean = trim (stripAnsi line)
      in clean = ascii ''>'' \<or> clean = [0x276F] \<or> endsWith clean (ascii ''> '')
         \<or> promptRegex clean)"

subsection \<open>Properties of prompt detection\<close>

lemma trim_last: "trim s \<noteq> [] \<Longrightarrow> \<not> isWhiteSpace (last (trim s))"
proof -
  let ?r = "dropWhile isWhiteSpace (rev (dropWhile isWhiteSpace s))"
  assume "trim s \<noteq> []"
  then have ne: "?r \<noteq> []" by (simp add: trim_def)
  then have "\<not> isWhiteSpace (hd ?r)" by (rule hd_dropWhile)
  moreover have "last (trim s) = hd ?r" using ne by (simp add: trim_def last_rev)
  ultimately show ?thesis by simp
qed

lemma endsWith_last:
  assumes "endsWith s (p @ [c])"
  shows "s \<noteq> [] \<and> last s = c"
proof -
  let ?n = "length s - length (p @ [c])"
  from assms have l: "length (p @ [c]) \<le> length s" and d: "drop ?n s = p @ [c]"
    by (simp_all add: endsWith_def)
  from l have ne: "s \<noteq> []" by auto
  from l have "?n < length s" by simp
  then have "last (drop ?n s) = last s" by (rule last_drop)
  with d ne show ?thesis by simp
qed

text \<open>After \<open>trim\<close> no string ends in a space, so the third disjunct can never hold.\<close>

lemma endsWith_space_after_trim: "\<not> endsWith (trim s) (ascii ''> '')"
proof
  assume "endsWith (trim s) (ascii ''> '')"
  then have "endsWith (trim s) ([0x3E] @ [0x20])" by (simp add: ascii_def)
  then have "trim s \<noteq> [] \<and> last (trim s) = 0x20" by (rule endsWith_last)
  then show False using trim_last [of s] by (simp add: isWhiteSpace_def)
qed

lemma promptRegex_after_trim:
  "promptRegex (trim s) \<longleftrightarrow> trim s = ascii ''>'' \<or> trim s = [0x276F]"
proof
  assume p: "promptRegex (trim s)"
  then obtain c r where t: "trim s = c # r" and c: "c = 0x3E \<or> c = 0x276F"
    and r: "list_all isWhiteSpace r"
    by (auto simp: promptRegex_def split: list.splits)
  have "r = []"
  proof (rule ccontr)
    assume ne: "r \<noteq> []"
    then have "last r \<in> set r" by simp
    with r have "isWhiteSpace (last r)" by (simp add: list_all_iff)
    moreover from t ne have "last (trim s) = last r" by simp
    ultimately show False using trim_last [of s] t by simp
  qed
  with t c show "trim s = ascii ''>'' \<or> trim s = [0x276F]" by (auto simp: ascii_def)
next
  assume "trim s = ascii ''>'' \<or> trim s = [0x276F]"
  then show "promptRegex (trim s)" by (auto simp: promptRegex_def ascii_def)
qed

text \<open>
  What the function computes: a line is prompt-detected exactly when, stripped and trimmed,
  it is one of the two glyphs.
\<close>

lemma isPromptLine_iff:
  "isPromptLine line \<longleftrightarrow>
     trim (stripAnsi line) = ascii ''>'' \<or> trim (stripAnsi line) = [0x276F]"
  unfolding isPromptLine_def Let_def
  using endsWith_space_after_trim [of "stripAnsi line"]
    promptRegex_after_trim [of "stripAnsi line"]
  by blast

text \<open>
  C4. The claim counts a line that ends with a glyph followed by white space, such as
  \<open>"foo> "\<close>, as prompt-detected. The code trims the line before it tests
  \<^verbatim>\<open>endsWith('> ')\<close>, so that test is dead, and \<open>"foo> "\<close> is not prompt-detected.
\<close>

theorem C4_foo_prompt_not_detected:
  "isPromptLine (ascii ''foo> '') = False
   \<and> stripAnsi (ascii ''foo> '') = ascii ''foo> ''
   \<and> trim (stripAnsi (ascii ''foo> '')) = ascii ''foo>''
   \<and> endsWith (stripAnsi (ascii ''foo> '')) (ascii ''> '')"
  by (simp add: isPromptLine_def ascii_def matchAnsi_def trim_def isWhiteSpace_def
      endsWith_def promptRegex_def)

section \<open>JavaScript values\<close>

text \<open>
  The values that \<^verbatim>\<open>JSON.parse\<close> produces, with \<^verbatim>\<open>undefined\<close> (what reading a
  missing property gives) and \<^verbatim>\<open>Date\<close> objects (\<open>JDate v\<close> is \<^verbatim>\<open>new Date(v)\<close>, and
  \<^verbatim>\<open>new Date()\<close> at clock reading \<open>n\<close> is \<open>JDate (JNum n)\<close>). An object is the list of its
  own properties; it is only ever read by key. Numbers are kept as integers: the code
  only tests them for being zero and copies them.
\<close>

datatype jsval =
    JUndefined
  | JNull
  | JBool bool
  | JNum int
  | JStr jsstring
  | JArr "jsval list"
  | JObj "(jsstring \<times> jsval) list"
  | JDate jsval

text \<open>The conversion to boolean applied by \<^verbatim>\<open>?:\<close>, \<^verbatim>\<open>||\<close>, \<^verbatim>\<open>!\<close> and \<^verbatim>\<open>if\<close>.\<close>

fun truthy :: "jsval \<Rightarrow> bool" where
  "truthy JUndefined = False"
| "truthy JNull = False"
| "truthy (JBool b) = b"
| "truthy (JNum n) = (n \<noteq> 0)"
| "truthy (JStr s) = (s \<noteq> [])"
| "truthy (JArr xs) = True"
| "truthy (JObj kvs) = True"
| "truthy (JDate d) = True"

definition js_or :: "jsval \<Rightarrow> jsval \<Rightarrow> jsval" where
  "js_or a b = (if truthy a then a else b)"

text \<open>
  \<open>getProp v k\<close> is \<^verbatim>\<open>v.k\<close> for the property names the daemon reads (none of them is
  inherited from a prototype, so a value that is not an object gives \<^verbatim>\<open>undefined\<close>).
  On \<^verbatim>\<open>null\<close> and \<^verbatim>\<open>undefined\<close> the read throws a TypeError; each caller below
  tests for that case before it reads.
\<close>

fun getProp :: "jsval \<Rightarrow> jsstring \<Rightarrow> jsval" where
  "getProp (JObj kvs) k = (case map_of kvs k of None \<Rightarrow> JUndefined | Some v \<Rightarrow> v)"
| "getProp v k = JUndefined"

definition nullish :: "jsval \<Rightarrow> bool" where
  "nullish v = (v = JNull \<or> v = JUndefined)"

text \<open>
  \<^verbatim>\<open>===\<close>: primitives are compared by value; two objects, arrays or dates that come out
  of \<^verbatim>\<open>JSON.parse\<close> or a literal are never the same reference.
\<close>

fun strictEq :: "jsval \<Rightarrow> jsval \<Rightarrow> bool" where
  "strictEq JUndefined b = (b = JUndefined)"
| "strictEq JNull b = (b = JNull)"
| "strictEq (JBool x) b = (b = JBool x)"
| "strictEq (JNum n) b = (b = JNum n)"
| "strictEq (JStr s) b = (b = JStr s)"
| "strictEq a b = False"

text \<open>
  Assignment of one property, as \<^verbatim>\<open>Map.prototype.set\<close> and an object spread do it: an
  existing key keeps its place, a new key goes to the end.
\<close>

fun setProp :: "'k \<Rightarrow> 'v \<Rightarrow> ('k \<times> 'v) list \<Rightarrow> ('k \<times> 'v) list" where
  "setProp k v [] = [(k, v)]"
| "setProp k v ((k', v') # r) =
     (if k' = k then (k, v) # r else (k', v') # setProp k v r)"

definition delProp :: "'k \<Rightarrow> ('k \<times> 'v) list \<Rightarrow> ('k \<times> 'v) list" where
  "delProp k kvs = filter (\<lambda>kv. fst kv \<noteq> k) kvs"

text \<open>\<^verbatim>\<open>{...a, ...b}\<close> for the property lists of \<open>a\<close> and \<open>b\<close>.\<close>

definition spread :: "('k \<times> 'v) list \<Rightarrow> ('k \<times> 'v) list \<Rightarrow> ('k \<times> 'v) list" where
  "spread a b = foldl (\<lambda>acc kv. setProp (fst kv) (snd kv) acc) a b"

text \<open>Decimal digits of an index, for the own properties of an array or a string.\<close>

fun decimal :: "nat \<Rightarrow> jsstring" where
  "decimal n =
     (if n < 10 then [of_nat (48 + n)]
      else decimal (n div 10) @ [of_nat (48 + n mod 10)])"

text \<open>The own enumerable properties that a spread \<^verbatim>\<open>...v\<close> copies.\<close>

fun ownEnumerable :: "jsval \<Rightarrow> (jsstring \<times> jsval) list" where
  "ownEnumerable (JObj kvs) = kvs"
| "ownEnumerable (JArr xs) = zip (map decimal [0..<length xs]) xs"
| "ownEnumerable (JStr s) = zip (map decimal [0..<length s]) (map (\<lambda>c. JStr [c]) s)"
| "ownEnumerable v = []"

subsection \<open>Basic facts\<close>

lemma unat_of_char_16: "unat (of_char c :: 16 word) = of_char c"
proof -
  have "(of_char c :: nat) < 2 ^ 16"
    by (rule less_trans [OF nat_of_char_less_256]) simp
  then have "unat (of_nat (of_char c) :: 16 word) = of_char c"
    by (simp add: unat_of_nat)
  then show ?thesis by (simp add: of_nat_of_char)
qed

lemma of_char_16_eq_iff: "(of_char c :: 16 word) = of_char d \<longleftrightarrow> c = d"
proof
  assume "(of_char c :: 16 word) = of_char d"
  then have "unat (of_char c :: 16 word) = unat (of_char d :: 16 word)" by simp
  then have "(of_char c :: nat) = of_char d" by (simp only: unat_of_char_16)
  then show "c = d" by simp
qed simp

lemma ascii_eq_iff [simp]: "ascii s = ascii t \<longleftrightarrow> s = t"
proof -
  have "inj (of_char :: char \<Rightarrow> 16 word)"
    by (rule injI) (simp add: of_char_16_eq_iff)
  then show ?thesis by (simp add: ascii_def inj_map_eq_map)
qed

lemma ascii_Nil_iff [simp]: "ascii s = [] \<longleftrightarrow> s = []"
  by (simp add: ascii_def)

lemma map_of_setProp: "map_of (setProp k v kvs) = (map_of kvs)(k \<mapsto> v)"
  by (induction kvs) (auto simp: fun_eq_iff)

lemma map_of_spread: "map_of (spread a b) = map_of a ++ map_of (rev b)"
proof (induction b arbitrary: a)
  case Nil
  then show ?case by (simp add: spread_def)
next
  case (Cons kv b)
  have "map_of (spread a (kv # b)) = map_of (spread (setProp (fst kv) (snd kv) a) b)"
    by (simp add: spread_def)
  also have "\<dots> = map_of (setProp (fst kv) (snd kv) a) ++ map_of (rev b)"
    by (rule Cons.IH)
  also have "\<dots> = map_of a ++ map_of (rev (kv # b))"
    by (cases kv) (simp add: map_of_setProp map_add_def fun_eq_iff split: option.splits)
  finally show ?case .
qed

section \<open>The structured-event grammar (cli-parser.ts)\<close>

text \<open>
  \<^verbatim>\<open>CLIEvent\<close>: the event type is the union of string literals of the interface, every
  optional field is \<open>JUndefined\<close> while absent, and the statistics are a record of their
  own, absent as \<open>None\<close>. The fields carry the prefix \<open>ev_\<close> because other interfaces of
  the daemon have fields of the same names.
\<close>

datatype CLIEventType =
  T_init | T_user_message | T_assistant_chunk | T_assistant_complete | T_thinking
  | T_tool_call | T_tool_result | T_complete | T_error | T_raw

record Stats =
  totalTokens :: jsval
  inputTokens :: jsval
  outputTokens :: jsval
  durationMs :: jsval
  toolCalls :: jsval

record CLIEvent =
  ev_type :: CLIEventType
  ev_timestamp :: jsval
  ev_sessionId :: jsval
  ev_model :: jsval
  ev_role :: jsval
  ev_content :: jsval
  ev_isStreaming :: jsval
  ev_toolName :: jsval
  ev_toolArgs :: jsval
  ev_toolResult :: jsval
  ev_stats :: "Stats option"
  ev_raw :: jsval

text \<open>An object literal \<^verbatim>\<open>{ type: t, timestamp: ts }\<close>, to which a caller adds fields.\<close>

definition event :: "CLIEventType \<Rightarrow> jsval \<Rightarrow> CLIEvent" where
  "event t ts =
     \<lparr>ev_type = t, ev_timestamp = ts, ev_sessionId = JUndefined, ev_model = JUndefined,
      ev_role = JUndefined, ev_content = JUndefined, ev_isStreaming = JUndefined,
      ev_toolName = JUndefined, ev_toolArgs = JUndefined, ev_toolResult = JUndefined,
      ev_stats = None, ev_raw = JUndefined\<rparr>"

text \<open>
  The \<^verbatim>\<open>stats\<close> field of the \<^verbatim>\<open>'result'\<close> case:
  \<^verbatim>\<open>
  stats: json.stats ? {
    totalTokens: json.stats.total_tokens || 0,
    inputTokens: json.stats.input_tokens || json.stats.input || 0,
    outputTokens: json.stats.output_tokens || json.stats.output || 0,
    durationMs: json.stats.duration_ms || 0,
    toolCalls: json.stats.tool_calls || 0,
  } : undefined,
  \<close>
\<close>

definition statsOf :: "jsval \<Rightarrow> Stats option" where
  "statsOf s =
     (if truthy s then
        Some \<lparr>totalTokens = js_or (getProp s (ascii ''total_tokens'')) (JNum 0),
              inputTokens = js_or (js_or (getProp s (ascii ''input_tokens''))
                                     (getProp s (ascii ''input''))) (JNum 0),
              outputTokens = js_or (js_or (getProp s (ascii ''output_tokens''))
                                      (getProp s (ascii ''output''))) (JNum 0),
              durationMs = js_or (getProp s (ascii ''duration_ms'')) (JNum 0),
              toolCalls = js_or (getProp s (ascii ''tool_calls'')) (JNum 0)\<rparr>
      else None)"

text \<open>
  The \<^verbatim>\<open>switch (json.type)\<close> of \<^verbatim>\<open>parseCLILine\<close>, for a parsed value that is neither
  \<^verbatim>\<open>null\<close> nor \<^verbatim>\<open>undefined\<close>. A \<^verbatim>\<open>'message'\<close> whose role is neither
  \<^verbatim>\<open>'user'\<close> nor \<^verbatim>\<open>'assistant'\<close> breaks out of the switch to the final
  \<^verbatim>\<open>return null\<close>.
\<close>

definition eventOfJson :: "nat \<Rightarrow> jsstring \<Rightarrow> jsval \<Rightarrow> CLIEvent option" where
  "eventOfJson now trimmed json =
     (let timestamp = (if truthy (getProp json (ascii ''timestamp''))
                       then JDate (getProp json (ascii ''timestamp''))
                       else JDate (JNum (int now)));
          ty = getProp json (ascii ''type'')
      in if ty = JStr (ascii ''init'') then
           Some ((event T_init timestamp)
                   \<lparr>ev_sessionId := getProp json (ascii ''session_id''),
                    ev_model := getProp json (ascii ''model'')\<rparr>)
         else if ty = JStr (ascii ''message'') then
           (if getProp json (ascii ''role'') = JStr (ascii ''user'') then
              Some ((event T_user_message timestamp)
                      \<lparr>ev_role := JStr (ascii ''user''),
                       ev_content := getProp json (ascii ''content'')\<rparr>)
            else if getProp json (ascii ''role'') = JStr (ascii ''assistant'') then
              Some ((event (if truthy (getProp json (ascii ''delta''))
                            then T_assistant_chunk else T_assistant_complete) timestamp)
                      \<lparr>ev_role := JStr (ascii ''assistant''),
                       ev_content := getProp json (ascii ''content''),
                       ev_isStreaming := js_or (getProp json (ascii ''delta'')) (JBool False)\<rparr>)
            else None)
         else if ty = JStr (ascii ''tool_call'') then
           Some ((event T_tool_call timestamp)
                   \<lparr>ev_toolName := js_or (getProp json (ascii ''tool''))
                                    (getProp json (ascii ''name'')),
                    ev_toolArgs := js_or (getProp json (ascii ''args''))
                                    (getProp json (ascii ''arguments''))\<rparr>)
         else if ty = JStr (ascii ''tool_result'') then
           Some ((event T_tool_result timestamp)
                   \<lparr>ev_toolName := js_or (getProp json (ascii ''tool''))
                                    (getProp json (ascii ''name'')),
                    ev_toolResult := getProp json (ascii ''result'')\<rparr>)
         else if ty = JStr (ascii ''result'') then
           Some ((event T_complete timestamp)
                   \<lparr>ev_stats := statsOf (getProp json (ascii ''stats''))\<rparr>)
         else if ty = JStr (ascii ''error'') then
           Some ((event T_error timestamp)
                   \<lparr>ev_content := js_or (js_or (getProp json (ascii ''message''))
                                            (getProp json (ascii ''error'')))
                                    (JStr (ascii ''Unknown error''))\<rparr>)
         else
           Some ((event T_raw timestamp)\<lparr>ev_raw := JStr trimmed\<rparr>))"

text \<open>
  \<open>parseCLILine\<close>. \<^verbatim>\<open>JSON.parse\<close> is a parameter, \<open>None\<close> where it throws a SyntaxError;
  \<open>now\<close> is the clock that \<^verbatim>\<open>new Date()\<close> reads. Reading \<^verbatim>\<open>json.timestamp\<close> of
  \<^verbatim>\<open>null\<close> throws inside the \<^verbatim>\<open>try\<close>, and the \<^verbatim>\<open>catch\<close> returns \<^verbatim>\<open>null\<close>.
\<close>

definition parseCLILine ::
  "(jsstring \<Rightarrow> jsval option) \<Rightarrow> nat \<Rightarrow> jsstring \<Rightarrow> CLIEvent option" where
  "parseCLILine JSON_parse now line =
     (let trimmed = trim line
      in if trimmed = [] then None
         else if \<not> startsWith trimmed (ascii ''{'') then
           (if includesStr trimmed (ascii ''Thinking'') \<or> includesStr trimmed (ascii ''...'')
            then Some ((event T_thinking (JDate (JNum (int now))))\<lparr>ev_content := JStr trimmed\<rparr>)
            else None)
         else
           (case JSON_parse trimmed of
              None \<Rightarrow> None
            | Some json \<Rightarrow> if nullish json then None else eventOfJson now trimmed json))"

subsection \<open>Properties of the parser\<close>







section \<open>The state store (state.ts)\<close>

text \<open>
  The directory \<^verbatim>\<open>~/.agent-hub\<close> with its two files. A file is absent, or exists and
  cannot be read (\<^verbatim>\<open>readFileSync\<close> throws), or has a text. \<open>mkdirFails\<close> says that
  \<^verbatim>\<open>mkdirSync\<close> of the directory throws (no permission, read-only or full disk), and
  \<open>writeFails\<close> that \<^verbatim>\<open>writeFileSync\<close> into the directory throws. \<^verbatim>\<open>existsSync\<close>
  never throws. Where the directory is absent so are its files, whatever the two fields
  say: a directory that \<^verbatim>\<open>mkdirSync\<close> has just created is empty.
\<close>

datatype diskfile = Absent | Unreadable | Contents jsstring

record fsys =
  stateDir :: bool
  mkdirFails :: bool
  writeFails :: bool
  authTokenFile :: diskfile
  stateFile :: diskfile

type_synonym jsobject = "(jsstring \<times> jsval) list"

text \<open>
  What is thrown: a TypeError or a SyntaxError of the engine, an error of the operating
  system raised by a library function, or \<^verbatim>\<open>new Error(message)\<close>.
\<close>

datatype js_error = TypeError | SyntaxError | SystemError | Error jsstring

text \<open>
  \<^verbatim>\<open>
  const DEFAULT_STATE: DaemonState = {
    activeProject: null, recentProjects: [], cliPid: null, status: 'idle' };
  \<close>
\<close>

definition DEFAULT_STATE :: jsobject where
  "DEFAULT_STATE =
     [(ascii ''activeProject'', JNull),
      (ascii ''recentProjects'', JArr []),
      (ascii ''cliPid'', JNull),
      (ascii ''status'', JStr (ascii ''idle''))]"

text \<open>
  \<^verbatim>\<open>
  function ensureStateDir(): void {
    if (!existsSync(STATE_DIR)) { mkdirSync(STATE_DIR, { recursive: true, mode: 0o700 }); } }
  \<close>
  The result says whether the call threw (\<open>Some\<close>), with the file system afterwards.
\<close>

definition ensureStateDir :: "fsys \<Rightarrow> js_error option \<times> fsys" where
  "ensureStateDir fs =
     (if \<not> stateDir fs then
        (if mkdirFails fs then (Some SystemError, fs)
         else (None, fs\<lparr>stateDir := True, authTokenFile := Absent, stateFile := Absent\<rparr>))
      else (None, fs))"

text \<open>
  \<open>getAuthToken\<close>; \<open>uuid\<close> is what \<^verbatim>\<open>uuidv4()\<close> returns if it is called. Nothing here
  is inside a \<^verbatim>\<open>try\<close>.
  \<^verbatim>\<open>
  ensureStateDir();
  if (existsSync(AUTH_TOKEN_FILE)) return readFileSync(AUTH_TOKEN_FILE, 'utf-8').trim();
  const token = `ah_${uuidv4().replace(/-/g, '')}`;
  writeFileSync(AUTH_TOKEN_FILE, token, { mode: 0o600 });
  return token;
  \<close>
\<close>

definition getAuthToken :: "jsstring \<Rightarrow> fsys \<Rightarrow> (js_error + jsstring) \<times> fsys" where
  "getAuthToken uuid fs =
     (case ensureStateDir fs of
        (Some e, fs1) \<Rightarrow> (Inl e, fs1)
      | (None, fs1) \<Rightarrow>
          (case authTokenFile fs1 of
             Contents text \<Rightarrow> (Inr (trim text), fs1)
           | Unreadable \<Rightarrow> (Inl SystemError, fs1)
           | Absent \<Rightarrow>
               (let token = ascii ''ah_'' @ filter (\<lambda>c. c \<noteq> 0x2D) uuid
                in if writeFails fs1 then (Inl SystemError, fs1)
                   else (Inr token, fs1\<lparr>authTokenFile := Contents token\<rparr>))))"

text \<open>\<open>validateToken\<close>: \<^verbatim>\<open>token === validToken\<close>, for whatever value the message holds.\<close>

definition validateToken :: "jsstring \<Rightarrow> jsval \<Rightarrow> fsys \<Rightarrow> (js_error + bool) \<times> fsys" where
  "validateToken uuid token fs =
     (case getAuthToken uuid fs of
        (Inl e, fs1) \<Rightarrow> (Inl e, fs1)
      | (Inr validToken, fs1) \<Rightarrow> (Inr (strictEq token (JStr validToken)), fs1))"

text \<open>
  \<open>loadState\<close>. \<open>loadState_try\<close> is the body of the \<^verbatim>\<open>try\<close> block, in which
  \<^verbatim>\<open>readFileSync\<close> and \<^verbatim>\<open>JSON.parse\<close> may throw; the \<^verbatim>\<open>catch\<close> returns a copy of
  the defaults. The call of \<open>ensureStateDir\<close> stands before the \<^verbatim>\<open>try\<close>: what it
  throws leaves \<open>loadState\<close>.
  \<^verbatim>\<open>
  ensureStateDir();
  if (!existsSync(STATE_FILE)) { return { ...DEFAULT_STATE }; }
  try {
    const data = readFileSync(STATE_FILE, 'utf-8');
    return { ...DEFAULT_STATE, ...JSON.parse(data) };
  } catch { return { ...DEFAULT_STATE }; }
  \<close>
\<close>

definition loadState_try :: "(jsstring \<Rightarrow> jsval option) \<Rightarrow> diskfile \<Rightarrow> js_error + jsobject" where
  "loadState_try JSON_parse f =
     (case f of
        Contents data \<Rightarrow>
          (case JSON_parse data of
             None \<Rightarrow> Inl SyntaxError
           | Some v \<Rightarrow> Inr (spread (spread [] DEFAULT_STATE) (ownEnumerable v)))
      | _ \<Rightarrow> Inl SystemError)"

definition loadState ::
  "(jsstring \<Rightarrow> jsval option) \<Rightarrow> fsys \<Rightarrow> (js_error + jsobject) \<times> fsys" where
  "loadState JSON_parse fs =
     (case ensureStateDir fs of
        (Some e, fs1) \<Rightarrow> (Inl e, fs1)
      | (None, fs1) \<Rightarrow>
          if stateFile fs1 = Absent then (Inr (spread [] DEFAULT_STATE), fs1)
          else
            (case loadState_try JSON_parse (stateFile fs1) of
               Inl e \<Rightarrow> (Inr (spread [] DEFAULT_STATE), fs1)
             | Inr s \<Rightarrow> (Inr s, fs1)))"

text \<open>
  \<open>saveState\<close>; \<^verbatim>\<open>JSON.stringify\<close> (with its indentation) is a parameter.
  \<^verbatim>\<open>
  ensureStateDir();
  writeFileSync(STATE_FILE, JSON.stringify(state, null, 2), { mode: 0o600 });
  \<close>
\<close>

definition saveState ::
  "(jsval \<Rightarrow> jsstring) \<Rightarrow> jsobject \<Rightarrow> fsys \<Rightarrow> js_error option \<times> fsys" where
  "saveState JSON_stringify state fs =
     (case ensureStateDir fs of
        (Some e, fs1) \<Rightarrow> (Some e, fs1)
      | (None, fs1) \<Rightarrow>
          if writeFails fs1 then (Some SystemError, fs1)
          else (None, fs1\<lparr>stateFile := Contents (JSON_stringify (JObj state))\<rparr>))"

text \<open>
  \<^verbatim>\<open>
  const current = loadState();
  const newState = { ...current, ...updates };
  saveState(newState);
  return newState;
  \<close>
\<close>

definition updateState ::
  "(jsstring \<Rightarrow> jsval option) \<Rightarrow> (jsval \<Rightarrow> jsstring) \<Rightarrow> jsobject \<Rightarrow> fsys
   \<Rightarrow> (js_error + jsobject) \<times> fsys" where
  "updateState JSON_parse JSON_stringify updates fs =
     (case loadState JSON_parse fs of
        (Inl e, fs1) \<Rightarrow> (Inl e, fs1)
      | (Inr current, fs1) \<Rightarrow>
          (let newState = spread current updates
           in case saveState JSON_stringify newState fs1 of
                (Some e, fs2) \<Rightarrow> (Inl e, fs2)
              | (None, fs2) \<Rightarrow> (Inr newState, fs2)))"

text \<open>
  \<open>addRecentProject\<close>. \<^verbatim>\<open>state.recentProjects.filter\<close> throws a TypeError when the
  stored value is not an array; the result says whether the call threw, with the file
  system as it is afterwards.
  \<^verbatim>\<open>
  const state = loadState();
  const recent = state.recentProjects.filter(p => p !== projectPath);
  recent.unshift(projectPath);
  state.recentProjects = recent.slice(0, 10);
  saveState(state);
  \<close>
\<close>

definition addRecentProject ::
  "(jsstring \<Rightarrow> jsval option) \<Rightarrow> (jsval \<Rightarrow> jsstring) \<Rightarrow> jsval \<Rightarrow> fsys
   \<Rightarrow> js_error option \<times> fsys" where
  "addRecentProject JSON_parse JSON_stringify projectPath fs =
     (case loadState JSON_parse fs of
        (Inl e, fs1) \<Rightarrow> (Some e, fs1)
      | (Inr state, fs1) \<Rightarrow>
          (case getProp (JObj state) (ascii ''recentProjects'') of
             JArr ps \<Rightarrow>
               (let recent = projectPath # filter (\<lambda>p. \<not> strictEq p projectPath) ps;
                    state' = setProp (ascii ''recentProjects'') (JArr (take 10 recent)) state
                in saveState JSON_stringify state' fs1)
           | _ \<Rightarrow> (Some TypeError, fs1)))"

subsection \<open>Properties of the state store\<close>

lemma spread_DEFAULT_STATE: "spread [] DEFAULT_STATE = DEFAULT_STATE"
  by (simp add: spread_def DEFAULT_STATE_def)

lemma ensureStateDir_exists: "stateDir fs \<Longrightarrow> ensureStateDir fs = (None, fs)"
  by (simp add: ensureStateDir_def)

lemma ensureStateDir_created:
  "\<not> stateDir fs \<Longrightarrow> \<not> mkdirFails fs
   \<Longrightarrow> ensureStateDir fs
       = (None, fs\<lparr>stateDir := True, authTokenFile := Absent, stateFile := Absent\<rparr>)"
  by (simp add: ensureStateDir_def)

lemma ensureStateDir_throws:
  "\<not> stateDir fs \<Longrightarrow> mkdirFails fs \<Longrightarrow> ensureStateDir fs = (Some SystemError, fs)"
  by (simp add: ensureStateDir_def)

lemma map_of_rev_None: "map_of (rev b) k = None \<longleftrightarrow> k \<notin> fst ` set b"
  by (simp add: map_of_eq_None_iff)

lemma loadState_mkdir_fails:
  "\<not> stateDir fs \<Longrightarrow> mkdirFails fs \<Longrightarrow> loadState JSON_parse fs = (Inl SystemError, fs)"
  by (simp add: loadState_def ensureStateDir_throws)

lemma loadState_created:
  "\<not> stateDir fs \<Longrightarrow> \<not> mkdirFails fs \<Longrightarrow> fst (loadState JSON_parse fs) = Inr DEFAULT_STATE"
  by (simp add: loadState_def ensureStateDir_created spread_DEFAULT_STATE)

lemma loadState_absent:
  "stateDir fs \<Longrightarrow> stateFile fs = Absent \<Longrightarrow> fst (loadState JSON_parse fs) = Inr DEFAULT_STATE"
  by (simp add: loadState_def ensureStateDir_exists spread_DEFAULT_STATE)

lemma loadState_caught:
  assumes "stateDir fs"
    and "stateFile fs = Unreadable \<or> (\<exists>data. stateFile fs = Contents data \<and> JSON_parse data = None)"
  shows "fst (loadState JSON_parse fs) = Inr DEFAULT_STATE"
proof -
  from assms(2) have "stateFile fs \<noteq> Absent"
    and "\<exists>err. loadState_try JSON_parse (stateFile fs) = Inl err"
    by (auto simp: loadState_try_def)
  with assms(1) show ?thesis
    by (auto simp: loadState_def ensureStateDir_exists spread_DEFAULT_STATE)
qed

lemma loadState_parsed:
  assumes "stateDir fs" and "stateFile fs = Contents data" and "JSON_parse data = Some v"
  shows "fst (loadState JSON_parse fs) = Inr (spread DEFAULT_STATE (ownEnumerable v))"
  using assms
  by (simp add: loadState_def ensureStateDir_exists loadState_try_def spread_DEFAULT_STATE)

text \<open>
  C10 (as stated, refuted). The state file is absent, and so is the directory, which
  cannot be created: \<open>loadState\<close> throws the error of \<^verbatim>\<open>mkdirSync\<close>.
\<close>

theorem C10_loadState_throws_counterexample:
  "fst (loadState (map_of [])
          \<lparr>stateDir = False, mkdirFails = True, writeFails = True,
           authTokenFile = Absent, stateFile = Absent\<rparr>)
   = Inl SystemError"
  by (simp add: loadState_def ensureStateDir_def)

text \<open>
  C10 (amended). Where the state directory exists or can be created, \<open>loadState\<close> does
  not throw and its result is a state object. With the directory just created, or the
  file absent, unreadable, or with contents that do not parse, the result is exactly the
  default state (\<^verbatim>\<open>activeProject\<close> null, \<^verbatim>\<open>recentProjects\<close> empty, \<^verbatim>\<open>cliPid\<close> null,
  \<^verbatim>\<open>status\<close> idle). With contents that parse to a value \<open>v\<close>, every field of the
  default state is present in the result, a field that \<open>v\<close> does not have takes its
  default, and a field that \<open>v\<close> has takes the value from disk. Where the directory is
  absent and cannot be created, \<open>loadState\<close> throws.
\<close>

theorem C10_loadState_defaulting_amended:
  "DEFAULT_STATE =
     [(ascii ''activeProject'', JNull), (ascii ''recentProjects'', JArr []),
      (ascii ''cliPid'', JNull), (ascii ''status'', JStr (ascii ''idle''))]
   \<and> (\<not> stateDir fs \<and> mkdirFails fs \<longrightarrow> fst (loadState JSON_parse fs) = Inl SystemError)
   \<and> (\<not> stateDir fs \<and> \<not> mkdirFails fs \<longrightarrow> fst (loadState JSON_parse fs) = Inr DEFAULT_STATE)
   \<and> (stateDir fs \<longrightarrow>
        (stateFile fs = Absent \<longrightarrow> fst (loadState JSON_parse fs) = Inr DEFAULT_STATE)
        \<and> (stateFile fs = Unreadable \<longrightarrow> fst (loadState JSON_parse fs) = Inr DEFAULT_STATE)
        \<and> (stateFile fs = Contents data \<and> JSON_parse data = None \<longrightarrow>
             fst (loadState JSON_parse fs) = Inr DEFAULT_STATE)
        \<and> (stateFile fs = Contents data \<and> JSON_parse data = Some v \<longrightarrow>
             (\<exists>s. fst (loadState JSON_parse fs) = Inr s
                \<and> (\<forall>k \<in> fst ` set DEFAULT_STATE.
                      map_of s k \<noteq> None
                      \<and> (k \<notin> fst ` set (ownEnumerable v) \<longrightarrow> map_of s k = map_of DEFAULT_STATE k)
                      \<and> (k \<in> fst ` set (ownEnumerable v) \<longrightarrow>
                           map_of s k = map_of (rev (ownEnumerable v)) k)))))"
proof (intro conjI impI)
  show "DEFAULT_STATE =
     [(ascii ''activeProject'', JNull), (ascii ''recentProjects'', JArr []),
      (ascii ''cliPid'', JNull), (ascii ''status'', JStr (ascii ''idle''))]"
    by (simp add: DEFAULT_STATE_def)
next
  assume "\<not> stateDir fs \<and> mkdirFails fs"
  then show "fst (loadState JSON_parse fs) = Inl SystemError"
    by (simp add: loadState_mkdir_fails)
next
  assume "\<not> stateDir fs \<and> \<not> mkdirFails fs"
  then show "fst (loadState JSON_parse fs) = Inr DEFAULT_STATE"
    by (simp add: loadState_created)
next
  assume "stateDir fs" and "stateFile fs = Absent"
  then show "fst (loadState JSON_parse fs) = Inr DEFAULT_STATE"
    by (rule loadState_absent)
next
  assume "stateDir fs" and "stateFile fs = Unreadable"
  then show "fst (loadState JSON_parse fs) = Inr DEFAULT_STATE"
    by (simp add: loadState_caught)
next
  assume "stateDir fs"
    and "stateFile fs = Contents data \<and> JSON_parse data = None"
  then show "fst (loadState JSON_parse fs) = Inr DEFAULT_STATE"
    by (simp add: loadState_caught)
next
  assume d: "stateDir fs"
    and a: "stateFile fs = Contents data \<and> JSON_parse data = Some v"
  let ?s = "spread DEFAULT_STATE (ownEnumerable v)"
  from d a have r: "fst (loadState JSON_parse fs) = Inr ?s"
    by (simp add: loadState_parsed)
  have m: "map_of ?s = map_of DEFAULT_STATE ++ map_of (rev (ownEnumerable v))"
    by (rule map_of_spread)
  have "\<forall>k \<in> fst ` set DEFAULT_STATE.
      map_of ?s k \<noteq> None
      \<and> (k \<notin> fst ` set (ownEnumerable v) \<longrightarrow> map_of ?s k = map_of DEFAULT_STATE k)
      \<and> (k \<in> fst ` set (ownEnumerable v) \<longrightarrow> map_of ?s k = map_of (rev (ownEnumerable v)) k)"
  proof (intro ballI conjI impI)
    fix k
    assume k: "k \<in> fst ` set DEFAULT_STATE"
    then have dk: "map_of DEFAULT_STATE k \<noteq> None"
      by (simp add: map_of_eq_None_iff)
    show "map_of ?s k \<noteq> None"
      using dk by (simp add: m map_add_def split: option.splits)
    show "map_of ?s k = map_of DEFAULT_STATE k" if "k \<notin> fst ` set (ownEnumerable v)"
    proof -
      from that have "map_of (rev (ownEnumerable v)) k = None"
        by (simp add: map_of_rev_None)
      then show ?thesis by (simp add: m map_add_def)
    qed
    show "map_of ?s k = map_of (rev (ownEnumerable v)) k" if "k \<in> fst ` set (ownEnumerable v)"
    proof -
      from that have "map_of (rev (ownEnumerable v)) k \<noteq> None"
        by (simp add: map_of_rev_None)
      then show ?thesis by (auto simp: m map_add_def split: option.splits)
    qed
  qed
  with r show "\<exists>s. fst (loadState JSON_parse fs) = Inr s
      \<and> (\<forall>k \<in> fst ` set DEFAULT_STATE.
            map_of s k \<noteq> None
            \<and> (k \<notin> fst ` set (ownEnumerable v) \<longrightarrow> map_of s k = map_of DEFAULT_STATE k)
            \<and> (k \<in> fst ` set (ownEnumerable v) \<longrightarrow>
                 map_of s k = map_of (rev (ownEnumerable v)) k))"
    by blast
qed

theorem C10_loadState_defaulting_amended_witness:
  \<open>fst (loadState (map_of [(ascii ''{"status":"ready"}'',
                             JObj [(ascii ''status'', JStr (ascii ''ready''))])])
          \<lparr>stateDir = False, mkdirFails = False, writeFails = False,
           authTokenFile = Absent, stateFile = Absent\<rparr>)
     = Inr DEFAULT_STATE
   \<and> fst (loadState (map_of [(ascii ''{"status":"ready"}'',
                             JObj [(ascii ''status'', JStr (ascii ''ready''))])])
          \<lparr>stateDir = True, mkdirFails = True, writeFails = False,
           authTokenFile = Absent, stateFile = Unreadable\<rparr>)
     = Inr DEFAULT_STATE
   \<and> fst (loadState (map_of [(ascii ''{"status":"ready"}'',
                             JObj [(ascii ''status'', JStr (ascii ''ready''))])])
          \<lparr>stateDir = True, mkdirFails = True, writeFails = False,
           authTokenFile = Absent, stateFile = Contents (ascii ''{"status":'')\<rparr>)
     = Inr DEFAULT_STATE
   \<and> fst (loadState (map_of [(ascii ''{"status":"ready"}'',
                             JObj [(ascii ''status'', JStr (ascii ''ready''))])])
          \<lparr>stateDir = True, mkdirFails = True, writeFails = False,
           authTokenFile = Absent, stateFile = Contents (ascii ''{"status":"ready"}'')\<rparr>)
     = Inr [(ascii ''activeProject'', JNull), (ascii ''recentProjects'', JArr []),
            (ascii ''cliPid'', JNull), (ascii ''status'', JStr (ascii ''ready''))]
   \<and> (\<exists>s. fst (loadState (map_of [(ascii ''{"status":"ready"}'',
                             JObj [(ascii ''status'', JStr (ascii ''ready''))])])
          \<lparr>stateDir = True, mkdirFails = True, writeFails = False,
           authTokenFile = Absent, stateFile = Contents (ascii ''{"status":"ready"}'')\<rparr>)
         = Inr s
       \<and> map_of s (ascii ''status'') = Some (JStr (ascii ''ready''))
       \<and> map_of s (ascii ''cliPid'') = Some JNull)
   \<and> fst (loadState (map_of [(ascii ''{"status":"ready"}'',
                             JObj [(ascii ''status'', JStr (ascii ''ready''))])])
          \<lparr>stateDir = False, mkdirFails = True, writeFails = True,
           authTokenFile = Absent, stateFile = Absent\<rparr>)
     = Inl SystemError\<close>
proof -
  let ?good = \<open>ascii ''{"status":"ready"}''\<close>
  let ?bad = \<open>ascii ''{"status":''\<close>
  let ?v = "JObj [(ascii ''status'', JStr (ascii ''ready''))]"
  let ?P = "map_of [(?good, ?v)]"
  let ?fs0 = "\<lparr>stateDir = False, mkdirFails = False, writeFails = False,
           authTokenFile = Absent, stateFile = Absent\<rparr>"
  let ?fs1 = "\<lparr>stateDir = True, mkdirFails = True, writeFails = False,
           authTokenFile = Absent, stateFile = Unreadable\<rparr>"
  let ?fs2 = "\<lparr>stateDir = True, mkdirFails = True, writeFails = False,
           authTokenFile = Absent, stateFile = Contents ?bad\<rparr>"
  let ?fs3 = "\<lparr>stateDir = True, mkdirFails = True, writeFails = False,
           authTokenFile = Absent, stateFile = Contents ?good\<rparr>"
  let ?fs4 = "\<lparr>stateDir = False, mkdirFails = True, writeFails = True,
           authTokenFile = Absent, stateFile = Absent\<rparr>"
  have a: "fst (loadState ?P ?fs0) = Inr DEFAULT_STATE"
    using C10_loadState_defaulting_amended [where fs = ?fs0 and JSON_parse = ?P] by simp
  have b: "fst (loadState ?P ?fs1) = Inr DEFAULT_STATE"
    using C10_loadState_defaulting_amended [where fs = ?fs1 and JSON_parse = ?P] by simp
  have c: "fst (loadState ?P ?fs2) = Inr DEFAULT_STATE"
    using C10_loadState_defaulting_amended
      [where fs = ?fs2 and JSON_parse = ?P and data = ?bad] by simp
  have e: "fst (loadState ?P ?fs4) = Inl SystemError"
    using C10_loadState_defaulting_amended [where fs = ?fs4 and JSON_parse = ?P] by simp
  have d: "fst (loadState ?P ?fs3)
      = Inr [(ascii ''activeProject'', JNull), (ascii ''recentProjects'', JArr []),
             (ascii ''cliPid'', JNull), (ascii ''status'', JStr (ascii ''ready''))]"
    by (simp add: loadState_def ensureStateDir_def loadState_try_def spread_def
        DEFAULT_STATE_def)
  have o: "ownEnumerable ?v = [(ascii ''status'', JStr (ascii ''ready''))]"
    by simp
  have "stateDir ?fs3"
    "stateFile ?fs3 = Contents ?good \<and> ?P ?good = Some ?v"
    by simp_all
  with C10_loadState_defaulting_amended
         [where fs = ?fs3 and JSON_parse = ?P and data = ?good and v = ?v]
  obtain s where s: "fst (loadState ?P ?fs3) = Inr s"
    and q: "\<forall>k \<in> fst ` set DEFAULT_STATE.
              map_of s k \<noteq> None
              \<and> (k \<notin> fst ` set (ownEnumerable ?v) \<longrightarrow> map_of s k = map_of DEFAULT_STATE k)
              \<and> (k \<in> fst ` set (ownEnumerable ?v) \<longrightarrow>
                   map_of s k = map_of (rev (ownEnumerable ?v)) k)"
    by blast
  have m: "ascii ''status'' \<in> fst ` set DEFAULT_STATE"
    "ascii ''cliPid'' \<in> fst ` set DEFAULT_STATE"
    by (simp_all add: DEFAULT_STATE_def)
  from bspec [OF q m(1)] have s1: "map_of s (ascii ''status'') = Some (JStr (ascii ''ready''))"
    unfolding o by simp
  from bspec [OF q m(2)] have s2: "map_of s (ascii ''cliPid'') = Some JNull"
    unfolding o by (simp add: DEFAULT_STATE_def)
  from s s1 s2 have p: "\<exists>s. fst (loadState ?P ?fs3) = Inr s
      \<and> map_of s (ascii ''status'') = Some (JStr (ascii ''ready''))
      \<and> map_of s (ascii ''cliPid'') = Some JNull"
    by blast
  from a b c d p e show ?thesis by blast
qed

section \<open>The terminal registry (terminal-manager.ts)\<close>

text \<open>
  Subscriber callbacks are values of a type \<open>'cb\<close> of which the registry knows nothing
  but their identity. Calling one is the parameter \<open>invoke\<close>: it changes the world
  outside the registry (of type \<open>'w\<close>: for the daemon, the sockets) and either returns
  (\<open>None\<close>) or throws a value (\<open>Some err\<close>). A callback does not call back into the
  registry: the daemon's callbacks only send on a socket.

  A \<^verbatim>\<open>Set\<close> of callbacks is the list of its members in insertion order, the order in
  which \<^verbatim>\<open>forEach\<close> visits them.
\<close>

type_synonym ('cb, 'ev, 'w) invoke = "'cb \<Rightarrow> 'ev \<Rightarrow> 'w \<Rightarrow> 'w \<times> jsval option"

definition Set_add :: "'a \<Rightarrow> 'a list \<Rightarrow> 'a list" where
  "Set_add x xs = (if x \<in> set xs then xs else xs @ [x])"

definition Set_delete :: "'a \<Rightarrow> 'a list \<Rightarrow> 'a list" where
  "Set_delete x xs = removeAll x xs"

text \<open>
  The loop of both \<^verbatim>\<open>broadcast\<close> methods:
  \<^verbatim>\<open>
  session.subscribers.forEach(callback => {
    try { callback(event); }
    catch (err) { console.error('... Error in subscriber callback:', err); }
  });
  \<close>
  The console is the list of the \<^verbatim>\<open>console.error\<close> calls made so far, each with its
  message and the value printed after it (\<^verbatim>\<open>console.log\<close> and \<^verbatim>\<open>console.warn\<close>
  are not recorded).
\<close>

type_synonym console = "(jsstring \<times> jsval) list"

fun broadcast_loop ::
  "('cb, 'ev, 'w) invoke \<Rightarrow> jsstring \<Rightarrow> 'ev \<Rightarrow> 'cb list \<Rightarrow> console \<times> 'w \<Rightarrow> console \<times> 'w" where
  "broadcast_loop invoke label ev [] (con, w) = (con, w)"
| "broadcast_loop invoke label ev (cb # cbs) (con, w) =
     (case invoke cb ev w of
        (w', None) \<Rightarrow> broadcast_loop invoke label ev cbs (con, w')
      | (w', Some err) \<Rightarrow> broadcast_loop invoke label ev cbs (con @ [(label, err)], w'))"

text \<open>\<^verbatim>\<open>arr.slice(-n)\<close> for a number \<open>n \<ge> 0\<close>; \<^verbatim>\<open>slice(-0)\<close> is \<^verbatim>\<open>slice(0)\<close>.\<close>

definition slice_last :: "nat \<Rightarrow> 'a list \<Rightarrow> 'a list" where
  "slice_last n xs = (if n = 0 then xs else drop (length xs - n) xs)"

subsection \<open>Data\<close>

datatype TerminalEventType = TE_output | TE_exit | TE_error | TE_created | TE_list

text \<open>\<^verbatim>\<open>SessionInfo\<close>; the two dates are kept as clock readings.\<close>

record SessionInfo =
  si_id :: jsstring
  si_projectPath :: jsstring
  si_projectName :: jsstring
  si_createdAt :: nat
  si_lastActivity :: nat
  si_bufferLines :: nat

record TerminalEvent =
  te_type :: TerminalEventType
  te_sessionId :: jsstring
  te_data :: "jsstring option"
  te_exitCode :: "int option"
  te_sessions :: "SessionInfo list option"

definition terminalEvent :: "TerminalEventType \<Rightarrow> jsstring \<Rightarrow> TerminalEvent" where
  "terminalEvent t sid =
     \<lparr>te_type = t, te_sessionId = sid, te_data = None, te_exitCode = None, te_sessions = None\<rparr>"

text \<open>
  \<^verbatim>\<open>TerminalSession\<close> (fields prefixed \<open>t_\<close>). \<open>t_ptyProcess\<close> is the handle of the
  pseudo-terminal process; what is done to it is recorded in the registry's \<open>tm_pty\<close>.
\<close>

record 'cb TerminalSession =
  t_id :: jsstring
  t_projectPath :: jsstring
  t_projectName :: jsstring
  t_ptyProcess :: nat
  t_buffer :: "jsstring list"
  t_maxBufferLines :: nat
  t_createdAt :: nat
  t_lastActivity :: nat
  t_subscribers :: "'cb list"

datatype pty_call =
    PtySpawn nat jsstring jsstring
  | PtyWrite nat jsstring
  | PtyResize nat int int
  | PtyKill nat

text \<open>
  The registry. Session objects are shared: the two maps, the handlers registered on the
  pseudo-terminal and the closures returned by \<open>subscribe\<close> all hold references to them,
  and a session taken out of the maps still receives output and still has subscribers.
  So the objects live in a store \<open>tm_heap\<close>, indexed by addresses that \<open>tm_next\<close>
  allocates, and \<^verbatim>\<open>sessions\<close> maps an id to an address. Both maps keep insertion
  order.
\<close>

record 'cb TerminalManager =
  tm_heap :: "nat \<Rightarrow> 'cb TerminalSession"
  tm_next :: nat
  tm_sessions :: "(jsstring \<times> nat) list"
  tm_projectToSession :: "(jsstring \<times> jsstring) list"
  tm_shell :: jsstring
  tm_pty :: "pty_call list"
  tm_console :: console

text \<open>
  What the environment supplies to one call of \<open>getOrCreateSession\<close>: the clock, the
  file system test, \<^verbatim>\<open>path.basename\<close>, the id that \<open>generateId\<close> draws, and the outcome
  of \<^verbatim>\<open>pty.spawn\<close> (\<open>Inl m\<close>: it throws an error with message \<open>m\<close>; \<open>Inr h\<close>: the handle).
\<close>

record term_env =
  env_now :: nat
  env_existsSync :: "jsstring \<Rightarrow> bool"
  env_basename :: "jsstring \<Rightarrow> jsstring"
  env_generateId :: jsstring
  env_spawn :: "jsstring + nat"

subsection \<open>Operations\<close>

definition TerminalManager_broadcast ::
  "('cb, TerminalEvent, 'w) invoke \<Rightarrow> 'cb TerminalSession \<Rightarrow> TerminalEvent
   \<Rightarrow> 'cb TerminalManager \<Rightarrow> 'w \<Rightarrow> 'cb TerminalManager \<times> 'w" where
  "TerminalManager_broadcast invoke session ev st w =
     (let (con, w') = broadcast_loop invoke (ascii ''[Terminal] Error in subscriber callback:'')
                        ev (t_subscribers session) (tm_console st, w)
      in (st\<lparr>tm_console := con\<rparr>, w'))"

text \<open>\<^verbatim>\<open>this.sessions.get(sessionId)\<close>: the address and the object.\<close>

definition TerminalManager_getSession ::
  "'cb TerminalManager \<Rightarrow> jsstring \<Rightarrow> (nat \<times> 'cb TerminalSession) option" where
  "TerminalManager_getSession st sessionId =
     (case map_of (tm_sessions st) sessionId of
        None \<Rightarrow> None
      | Some a \<Rightarrow> Some (a, tm_heap st a))"

text \<open>
  The handler of pseudo-terminal output registered for the session object at address \<open>a\<close>:
  \<^verbatim>\<open>
  ptyProcess.onData((data) => {
    session.lastActivity = new Date();
    const lines = data.split('\n');
    session.buffer.push(...lines);
    if (session.buffer.length > session.maxBufferLines) {
      session.buffer = session.buffer.slice(-session.maxBufferLines);
    }
    this.broadcast(session, { type: 'output', sessionId: id, data });
  });
  \<close>
\<close>

definition ptyProcess_onData ::
  "('cb, TerminalEvent, 'w) invoke \<Rightarrow> nat \<Rightarrow> nat \<Rightarrow> jsstring
   \<Rightarrow> 'cb TerminalManager \<Rightarrow> 'w \<Rightarrow> 'cb TerminalManager \<times> 'w" where
  "ptyProcess_onData invoke now a data st w =
     (let session = tm_heap st a;
          lines = split_nl data;
          pushed = t_buffer session @ lines;
          buffer = (if length pushed > t_maxBufferLines session
                    then slice_last (t_maxBufferLines session) pushed else pushed);
          session' = session\<lparr>t_lastActivity := now, t_buffer := buffer\<rparr>;
          st' = st\<lparr>tm_heap := (tm_heap st)(a := session')\<rparr>
      in TerminalManager_broadcast invoke session'
           ((terminalEvent TE_output (t_id session'))\<lparr>te_data := Some data\<rparr>) st' w)"

text \<open>
  The exit handler:
  \<^verbatim>\<open>
  ptyProcess.onExit(({ exitCode }) => {
    this.broadcast(session, { type: 'exit', sessionId: id, exitCode });
    this.sessions.delete(id);
    this.projectToSession.delete(projectPath);
  });
  \<close>
\<close>

definition ptyProcess_onExit ::
  "('cb, TerminalEvent, 'w) invoke \<Rightarrow> nat \<Rightarrow> int
   \<Rightarrow> 'cb TerminalManager \<Rightarrow> 'w \<Rightarrow> 'cb TerminalManager \<times> 'w" where
  "ptyProcess_onExit invoke a exitCode st w =
     (let session = tm_heap st a;
          (st1, w') = TerminalManager_broadcast invoke session
                        ((terminalEvent TE_exit (t_id session))\<lparr>te_exitCode := Some exitCode\<rparr>)
                        st w
      in (st1\<lparr>tm_sessions := delProp (t_id session) (tm_sessions st1),
               tm_projectToSession :=
                 delProp (t_projectPath session) (tm_projectToSession st1)\<rparr>, w'))"

text \<open>
  \<open>getOrCreateSession\<close>. The result is the address of the session object, or the error
  thrown. The environment handed to the shell (the allow-list \<^verbatim>\<open>cleanEnv\<close>) and the
  terminal size are not part of the record of the spawn.
\<close>

definition getOrCreateSession ::
  "('cb, TerminalEvent, 'w) invoke \<Rightarrow> term_env \<Rightarrow> jsstring
   \<Rightarrow> 'cb TerminalManager \<Rightarrow> 'w \<Rightarrow> (js_error + nat) \<times> 'cb TerminalManager \<times> 'w" where
  "getOrCreateSession invoke env projectPath st w =
     (case (case map_of (tm_projectToSession st) projectPath of
              None \<Rightarrow> None
            | Some existingId \<Rightarrow>
                if existingId \<noteq> [] then map_of (tm_sessions st) existingId else None) of
        Some a \<Rightarrow>
          (Inr a,
           st\<lparr>tm_heap := (tm_heap st)(a := (tm_heap st a)\<lparr>t_lastActivity := env_now env\<rparr>)\<rparr>,
           w)
      | None \<Rightarrow>
          if \<not> env_existsSync env projectPath then
            (Inl (Error (ascii ''Project path does not exist: '' @ projectPath)),
             st\<lparr>tm_console := tm_console st
                  @ [(ascii ''[Terminal] Project path does not exist: '' @ projectPath,
                      JUndefined)]\<rparr>,
             w)
          else
            (case env_spawn env of
               Inl message \<Rightarrow>
                 (Inl (Error (ascii ''Failed to create terminal: '' @ message)),
                  st\<lparr>tm_console := tm_console st
                       @ [(ascii ''[Terminal] Failed to spawn PTY: '' @ message, JUndefined)]\<rparr>,
                  w)
             | Inr ptyProcess \<Rightarrow>
                 (let id = env_generateId env;
                      a = tm_next st;
                      session =
                        \<lparr>t_id = id, t_projectPath = projectPath,
                         t_projectName = env_basename env projectPath,
                         t_ptyProcess = ptyProcess, t_buffer = [], t_maxBufferLines = 5000,
                         t_createdAt = env_now env, t_lastActivity = env_now env,
                         t_subscribers = []\<rparr>;
                      st1 = st\<lparr>tm_heap := (tm_heap st)(a := session),
                               tm_next := Suc a,
                               tm_pty := tm_pty st
                                 @ [PtySpawn ptyProcess (tm_shell st) projectPath],
                               tm_sessions := setProp id a (tm_sessions st),
                               tm_projectToSession :=
                                 setProp projectPath id (tm_projectToSession st)\<rparr>;
                      (st2, w') = TerminalManager_broadcast invoke session
                                    (terminalEvent TE_created id) st1 w
                  in (Inr a, st2, w'))))"

definition TerminalManager_getSessionByProject ::
  "'cb TerminalManager \<Rightarrow> jsstring \<Rightarrow> (nat \<times> 'cb TerminalSession) option" where
  "TerminalManager_getSessionByProject st projectPath =
     (case map_of (tm_projectToSession st) projectPath of
        None \<Rightarrow> None
      | Some sessionId \<Rightarrow>
          if sessionId \<noteq> [] then TerminalManager_getSession st sessionId else None)"

definition TerminalManager_write ::
  "nat \<Rightarrow> jsstring \<Rightarrow> jsstring \<Rightarrow> 'cb TerminalManager \<Rightarrow> bool \<times> 'cb TerminalManager" where
  "TerminalManager_write now sessionId data st =
     (case TerminalManager_getSession st sessionId of
        None \<Rightarrow> (False, st)
      | Some (a, session) \<Rightarrow>
          (True,
           st\<lparr>tm_pty := tm_pty st @ [PtyWrite (t_ptyProcess session) data],
              tm_heap := (tm_heap st)(a := session\<lparr>t_lastActivity := now\<rparr>)\<rparr>))"

definition TerminalManager_resize ::
  "jsstring \<Rightarrow> int \<Rightarrow> int \<Rightarrow> 'cb TerminalManager \<Rightarrow> bool \<times> 'cb TerminalManager" where
  "TerminalManager_resize sessionId cols rows st =
     (case TerminalManager_getSession st sessionId of
        None \<Rightarrow> (False, st)
      | Some (a, session) \<Rightarrow>
          (True, st\<lparr>tm_pty := tm_pty st @ [PtyResize (t_ptyProcess session) cols rows]\<rparr>))"

text \<open>
  \<^verbatim>\<open>
  close(sessionId: string): boolean {
    const session = this.sessions.get(sessionId);
    if (!session) return false;
    session.ptyProcess.kill();
    this.sessions.delete(sessionId);
    this.projectToSession.delete(session.projectPath);
    return true;
  }
  \<close>
\<close>

definition TerminalManager_close ::
  "jsstring \<Rightarrow> 'cb TerminalManager \<Rightarrow> bool \<times> 'cb TerminalManager" where
  "TerminalManager_close sessionId st =
     (case TerminalManager_getSession st sessionId of
        None \<Rightarrow> (False, st)
      | Some (a, session) \<Rightarrow>
          (True,
           st\<lparr>tm_pty := tm_pty st @ [PtyKill (t_ptyProcess session)],
              tm_sessions := delProp sessionId (tm_sessions st),
              tm_projectToSession :=
                delProp (t_projectPath session) (tm_projectToSession st)\<rparr>))"

text \<open>
  The closure that \<open>subscribe\<close> returns: the no-op \<^verbatim>\<open>() => {}\<close>, or
  \<^verbatim>\<open>() => { session.subscribers.delete(callback); }\<close> with the session object and the
  callback it has captured.
\<close>

datatype 'cb unsubscribe = NoOp | DeleteSubscriber nat 'cb

text \<open>
  \<open>subscribe\<close>. The replay of the buffer calls the callback outside any \<^verbatim>\<open>try\<close>, so a
  callback that throws makes \<open>subscribe\<close> throw (\<open>Inl\<close>), after the callback was added.
\<close>

definition TerminalManager_subscribe ::
  "('cb, TerminalEvent, 'w) invoke \<Rightarrow> jsstring \<Rightarrow> 'cb \<Rightarrow> 'cb TerminalManager \<Rightarrow> 'w
   \<Rightarrow> (jsval + 'cb unsubscribe) \<times> 'cb TerminalManager \<times> 'w" where
  "TerminalManager_subscribe invoke sessionId callback st w =
     (case TerminalManager_getSession st sessionId of
        None \<Rightarrow> (Inr NoOp, st, w)
      | Some (a, session) \<Rightarrow>
          (let session' = session\<lparr>t_subscribers := Set_add callback (t_subscribers session)\<rparr>;
               st' = st\<lparr>tm_heap := (tm_heap st)(a := session')\<rparr>
           in if t_buffer session' \<noteq> [] then
                (case invoke callback
                        ((terminalEvent TE_output sessionId)
                           \<lparr>te_data := Some (join_nl (t_buffer session'))\<rparr>) w of
                   (w', None) \<Rightarrow> (Inr (DeleteSubscriber a callback), st', w')
                 | (w', Some err) \<Rightarrow> (Inl err, st', w'))
              else (Inr (DeleteSubscriber a callback), st', w)))"

text \<open>Calling the closure.\<close>

fun TerminalManager_unsubscribe ::
  "'cb unsubscribe \<Rightarrow> 'cb TerminalManager \<Rightarrow> 'cb TerminalManager" where
  "TerminalManager_unsubscribe NoOp st = st"
| "TerminalManager_unsubscribe (DeleteSubscriber a callback) st =
     st\<lparr>tm_heap := (tm_heap st)
          (a := (tm_heap st a)\<lparr>t_subscribers := Set_delete callback (t_subscribers (tm_heap st a))\<rparr>)\<rparr>"

definition TerminalManager_listSessions :: "'cb TerminalManager \<Rightarrow> SessionInfo list" where
  "TerminalManager_listSessions st =
     map (\<lambda>(sid, a).
            let session = tm_heap st a
            in \<lparr>si_id = t_id session, si_projectPath = t_projectPath session,
                si_projectName = t_projectName session, si_createdAt = t_createdAt session,
                si_lastActivity = t_lastActivity session,
                si_bufferLines = length (t_buffer session)\<rparr>)
         (tm_sessions st)"

definition TerminalManager_getBuffer ::
  "'cb TerminalManager \<Rightarrow> jsstring \<Rightarrow> int option \<Rightarrow> jsstring list" where
  "TerminalManager_getBuffer st sessionId lastN =
     (case TerminalManager_getSession st sessionId of
        None \<Rightarrow> []
      | Some (a, session) \<Rightarrow>
          (case lastN of
             Some n \<Rightarrow> if n > 0 then slice_last (nat n) (t_buffer session) else t_buffer session
           | None \<Rightarrow> t_buffer session))"

definition TerminalManager_runCommand ::
  "nat \<Rightarrow> jsstring \<Rightarrow> jsstring \<Rightarrow> 'cb TerminalManager \<Rightarrow> bool \<times> 'cb TerminalManager" where
  "TerminalManager_runCommand now sessionId command st =
     (case TerminalManager_getSession st sessionId of
        None \<Rightarrow> (False, st)
      | Some (a, session) \<Rightarrow>
          (True,
           st\<lparr>tm_pty := tm_pty st @ [PtyWrite (t_ptyProcess session) (command @ [0x0D])],
              tm_heap := (tm_heap st)(a := session\<lparr>t_lastActivity := now\<rparr>)\<rparr>))"

text \<open>\<^verbatim>\<open>for (const [id] of this.sessions) this.close(id);\<close>\<close>

definition TerminalManager_closeAll :: "'cb TerminalManager \<Rightarrow> 'cb TerminalManager" where
  "TerminalManager_closeAll st =
     foldl (\<lambda>s sid. snd (TerminalManager_close sid s)) st (map fst (tm_sessions st))"

text \<open>A sequence of output arrivals (clock reading and data) for the session object at \<open>a\<close>.\<close>

fun ptyProcess_onData_all ::
  "('cb, TerminalEvent, 'w) invoke \<Rightarrow> nat \<Rightarrow> (nat \<times> jsstring) list
   \<Rightarrow> 'cb TerminalManager \<Rightarrow> 'w \<Rightarrow> 'cb TerminalManager \<times> 'w" where
  "ptyProcess_onData_all invoke a [] st w = (st, w)"
| "ptyProcess_onData_all invoke a ((now, data) # ds) st w =
     (let (st', w') = ptyProcess_onData invoke now a data st w
      in ptyProcess_onData_all invoke a ds st' w')"

subsection \<open>Properties of the terminal registry\<close>

lemma TerminalManager_broadcast_frame [simp]:
  "tm_heap (fst (TerminalManager_broadcast invoke session ev st w)) = tm_heap st"
  "tm_sessions (fst (TerminalManager_broadcast invoke session ev st w)) = tm_sessions st"
  "tm_projectToSession (fst (TerminalManager_broadcast invoke session ev st w))
     = tm_projectToSession st"
  "tm_pty (fst (TerminalManager_broadcast invoke session ev st w)) = tm_pty st"
  "tm_next (fst (TerminalManager_broadcast invoke session ev st w)) = tm_next st"
  by (simp_all add: TerminalManager_broadcast_def split_beta)

lemma map_of_delProp: "map_of (delProp k kvs) k' = (if k' = k then None else map_of kvs k')"
  by (induction kvs) (auto simp: delProp_def)

text \<open>Keeping the last \<open>m\<close> elements, appending, and keeping the last \<open>m\<close> again.\<close>

lemma drop_last_append:
  "drop (length (drop (length xs - m) xs @ ys) - m) (drop (length xs - m) xs @ ys)
   = drop (length (xs @ ys) - m) (xs @ ys)"
proof (cases "length xs \<le> m")
  case True
  then show ?thesis by simp
next
  case False
  then show ?thesis by (simp add: add.commute)
qed

lemma onData_session:
  assumes "0 < t_maxBufferLines (tm_heap st a)"
  shows "tm_heap (fst (ptyProcess_onData invoke now a data st w)) a
    = (tm_heap st a)\<lparr>t_lastActivity := now,
        t_buffer := drop (length (t_buffer (tm_heap st a) @ split_nl data)
                            - t_maxBufferLines (tm_heap st a))
                      (t_buffer (tm_heap st a) @ split_nl data)\<rparr>"
  using assms
  by (simp add: ptyProcess_onData_def Let_def slice_last_def)

lemma onData_all_session:
  assumes "0 < t_maxBufferLines (tm_heap st a)"
  shows "t_maxBufferLines (tm_heap (fst (ptyProcess_onData_all invoke a (d # ds) st w)) a)
      = t_maxBufferLines (tm_heap st a)
    \<and> t_subscribers (tm_heap (fst (ptyProcess_onData_all invoke a (d # ds) st w)) a)
      = t_subscribers (tm_heap st a)
    \<and> t_buffer (tm_heap (fst (ptyProcess_onData_all invoke a (d # ds) st w)) a)
      = drop (length (t_buffer (tm_heap st a) @ concat (map (\<lambda>d. split_nl (snd d)) (d # ds)))
               - t_maxBufferLines (tm_heap st a))
          (t_buffer (tm_heap st a) @ concat (map (\<lambda>d. split_nl (snd d)) (d # ds)))"
  using assms
proof (induction ds arbitrary: st w d)
  case Nil
  then show ?case
    by (cases d) (simp add: split_beta onData_session)
next
  case (Cons d' ds)
  obtain now data where d: "d = (now, data)" by (cases d)
  let ?st1 = "fst (ptyProcess_onData invoke now a data st w)"
  let ?w1 = "snd (ptyProcess_onData invoke now a data st w)"
  let ?m = "t_maxBufferLines (tm_heap st a)"
  have s1: "tm_heap ?st1 a
    = (tm_heap st a)\<lparr>t_lastActivity := now,
        t_buffer := drop (length (t_buffer (tm_heap st a) @ split_nl data) - ?m)
                      (t_buffer (tm_heap st a) @ split_nl data)\<rparr>"
    using Cons.prems by (rule onData_session)
  then have m1: "0 < t_maxBufferLines (tm_heap ?st1 a)"
    using Cons.prems by simp
  have step: "ptyProcess_onData_all invoke a (d # d' # ds) st w
      = ptyProcess_onData_all invoke a (d' # ds) ?st1 ?w1"
    by (simp add: d split_beta)
  note ih = Cons.IH [OF m1, of d' ?w1]
  show ?case
    unfolding step
    using ih drop_last_append [of "t_buffer (tm_heap st a) @ split_nl data" ?m
        "concat (map (\<lambda>d. split_nl (snd d)) (d' # ds))"]
    by (simp add: s1 d)
qed

lemma getOrCreateSession_new:
  assumes "map_of (tm_projectToSession st) p = None"
    and "fst (getOrCreateSession invoke env p st w) = Inr a"
  shows "t_maxBufferLines (tm_heap (fst (snd (getOrCreateSession invoke env p st w))) a) = 5000
    \<and> t_buffer (tm_heap (fst (snd (getOrCreateSession invoke env p st w))) a) = []"
proof (cases "env_existsSync env p")
  case False
  with assms show ?thesis by (simp add: getOrCreateSession_def)
next
  case True
  show ?thesis
  proof (cases "env_spawn env")
    case (Inl m)
    with assms True show ?thesis by (simp add: getOrCreateSession_def)
  next
    case (Inr h)
    with assms True show ?thesis
      by (auto simp: getOrCreateSession_def Let_def split_beta)
  qed
qed

text \<open>
  C6. Closing the same id twice: the second call returns false and leaves the registry as
  it is, so the process is not killed again. The first call, when the id is known,
  returns true, kills the session's process once, removes the id from the id map and the
  session's path from the path map; where the path map held the id under the session's
  own path only, no path maps to the id afterwards. When the id is unknown the first call
  already returns false and does nothing. \<open>close\<close> has no error result: nothing in it
  throws.
\<close>

theorem C6_close_idempotent:
  "(case TerminalManager_getSession st sid of
      None \<Rightarrow> TerminalManager_close sid st = (False, st)
    | Some (a, session) \<Rightarrow>
        fst (TerminalManager_close sid st) = True
        \<and> tm_pty (snd (TerminalManager_close sid st))
            = tm_pty st @ [PtyKill (t_ptyProcess session)]
        \<and> map_of (tm_projectToSession (snd (TerminalManager_close sid st)))
            (t_projectPath session) = None
        \<and> ((\<forall>p. map_of (tm_projectToSession st) p = Some sid \<longrightarrow> p = t_projectPath session)
            \<longrightarrow> (\<forall>p. map_of (tm_projectToSession (snd (TerminalManager_close sid st))) p
                      \<noteq> Some sid)))
   \<and> map_of (tm_sessions (snd (TerminalManager_close sid st))) sid = None
   \<and> TerminalManager_close sid (snd (TerminalManager_close sid st))
       = (False, snd (TerminalManager_close sid st))"
proof -
  have gone: "map_of (tm_sessions (snd (TerminalManager_close sid st))) sid = None"
    by (auto simp: TerminalManager_close_def TerminalManager_getSession_def map_of_delProp
        split: option.splits)
  then have again: "TerminalManager_close sid (snd (TerminalManager_close sid st))
       = (False, snd (TerminalManager_close sid st))"
    by (simp add: TerminalManager_close_def TerminalManager_getSession_def)
  have first: "(case TerminalManager_getSession st sid of
      None \<Rightarrow> TerminalManager_close sid st = (False, st)
    | Some (a, session) \<Rightarrow>
        fst (TerminalManager_close sid st) = True
        \<and> tm_pty (snd (TerminalManager_close sid st))
            = tm_pty st @ [PtyKill (t_ptyProcess session)]
        \<and> map_of (tm_projectToSession (snd (TerminalManager_close sid st)))
            (t_projectPath session) = None
        \<and> ((\<forall>p. map_of (tm_projectToSession st) p = Some sid \<longrightarrow> p = t_projectPath session)
            \<longrightarrow> (\<forall>p. map_of (tm_projectToSession (snd (TerminalManager_close sid st))) p
                      \<noteq> Some sid)))"
    by (auto simp: TerminalManager_close_def map_of_delProp split: option.splits)
  from first gone again show ?thesis by blast
qed

text \<open>
  C7. For a session whose maximum is positive (it is 5000 for every session that
  \<open>getOrCreateSession\<close> creates) and every non-empty sequence of output arrivals: after
  the last arrival the buffer is the sequence of all lines, old and appended, from which
  the oldest are dropped until at most the maximum remain. So it never holds more than
  the maximum, holds exactly the maximum most recent lines in their order when more
  were appended, and holds everything otherwise.
\<close>

theorem C7_buffer_bounded:
  assumes "0 < t_maxBufferLines (tm_heap st a)" and "ds \<noteq> []"
  shows "(let m = t_maxBufferLines (tm_heap st a);
              appended = t_buffer (tm_heap st a) @ concat (map (\<lambda>d. split_nl (snd d)) ds);
              session' = tm_heap (fst (ptyProcess_onData_all invoke a ds st w)) a
          in t_maxBufferLines session' = m
             \<and> length (t_buffer session') \<le> m
             \<and> t_buffer session' = drop (length appended - m) appended
             \<and> (length appended > m \<longrightarrow> length (t_buffer session') = m)
             \<and> (length appended \<le> m \<longrightarrow> t_buffer session' = appended))
     \<and> (\<forall>env p st0 w0 a' st1 w1.
          map_of (tm_projectToSession st0) p = None
          \<and> getOrCreateSession invoke env p st0 w0 = (Inr a', st1, w1)
          \<longrightarrow> t_maxBufferLines (tm_heap st1 a') = 5000)"
proof -
  from assms(2) obtain d ds' where ds: "ds = d # ds'" by (cases ds) auto
  note s = onData_all_session [OF assms(1), of invoke d ds' w]
  have new: "\<forall>env p st0 w0 a' st1 w1.
          map_of (tm_projectToSession st0) p = None
          \<and> getOrCreateSession invoke env p st0 w0 = (Inr a', st1, w1)
          \<longrightarrow> t_maxBufferLines (tm_heap st1 a') = 5000"
  proof (intro allI impI)
    fix env p st0 w0 a' st1 w1
    assume c: "map_of (tm_projectToSession st0) p = None
          \<and> getOrCreateSession invoke env p st0 w0 = (Inr a', st1, w1)"
    then have "fst (getOrCreateSession invoke env p st0 w0) = Inr a'"
      and "fst (snd (getOrCreateSession invoke env p st0 w0)) = st1"
      by simp_all
    with c getOrCreateSession_new [of st0 p invoke env w0 a']
    show "t_maxBufferLines (tm_heap st1 a') = 5000" by simp
  qed
  from s new show ?thesis
    unfolding ds Let_def by auto
qed

subsection \<open>An invariant of the registry\<close>

text \<open>
  \<open>new_TerminalManager\<close> is the registry that the constructor builds (the store holds
  nothing yet). In every registry reached from it the addresses in the id map are
  allocated, an id that the path map holds and the id map knows belongs to a session of
  that very path, and every allocated session has the maximum 5000. The operations keep
  this, provided the id drawn for a new session is not one the path map still holds.
\<close>

definition new_TerminalManager :: "jsstring \<Rightarrow> 'cb TerminalManager" where
  "new_TerminalManager shell =
     \<lparr>tm_heap = (\<lambda>a. \<lparr>t_id = [], t_projectPath = [], t_projectName = [], t_ptyProcess = 0,
                        t_buffer = [], t_maxBufferLines = 0, t_createdAt = 0,
                        t_lastActivity = 0, t_subscribers = []\<rparr>),
      tm_next = 0, tm_sessions = [], tm_projectToSession = [], tm_shell = shell,
      tm_pty = [], tm_console = []\<rparr>"

definition registry_inv :: "'cb TerminalManager \<Rightarrow> bool" where
  "registry_inv st \<longleftrightarrow>
     (\<forall>sid a. map_of (tm_sessions st) sid = Some a \<longrightarrow> a < tm_next st)
     \<and> (\<forall>p sid a. map_of (tm_projectToSession st) p = Some sid
                   \<and> map_of (tm_sessions st) sid = Some a
                   \<longrightarrow> t_projectPath (tm_heap st a) = p)
     \<and> (\<forall>a < tm_next st. t_maxBufferLines (tm_heap st a) = 5000)"

lemma registry_inv_new: "registry_inv (new_TerminalManager shell)"
  by (simp add: registry_inv_def new_TerminalManager_def)

lemma registry_inv_close:
  "registry_inv st \<Longrightarrow> registry_inv (snd (TerminalManager_close sid st))"
  by (auto simp: registry_inv_def TerminalManager_close_def TerminalManager_getSession_def
      map_of_delProp split: option.splits if_splits)

lemma registry_inv_write:
  "registry_inv st \<Longrightarrow> registry_inv (snd (TerminalManager_write now sid d st))"
  by (auto simp: registry_inv_def TerminalManager_write_def TerminalManager_getSession_def
      split: option.splits)

lemma registry_inv_runCommand:
  "registry_inv st \<Longrightarrow> registry_inv (snd (TerminalManager_runCommand now sid d st))"
  by (auto simp: registry_inv_def TerminalManager_runCommand_def TerminalManager_getSession_def
      split: option.splits)

lemma registry_inv_resize:
  "registry_inv st \<Longrightarrow> registry_inv (snd (TerminalManager_resize sid c r st))"
  by (auto simp: registry_inv_def TerminalManager_resize_def TerminalManager_getSession_def
      split: option.splits)

lemma registry_inv_subscribe:
  "registry_inv st \<Longrightarrow> registry_inv (fst (snd (TerminalManager_subscribe invoke sid cb st w)))"
  by (auto simp: registry_inv_def TerminalManager_subscribe_def TerminalManager_getSession_def
      Let_def split: option.splits prod.splits)

lemma registry_inv_unsubscribe:
  "registry_inv st \<Longrightarrow> registry_inv (TerminalManager_unsubscribe u st)"
  by (cases u) (auto simp: registry_inv_def)

lemma registry_inv_onData:
  "registry_inv st \<Longrightarrow> registry_inv (fst (ptyProcess_onData invoke now a d st w))"
  by (auto simp: registry_inv_def ptyProcess_onData_def Let_def)

lemma registry_inv_onExit:
  "registry_inv st \<Longrightarrow> registry_inv (fst (ptyProcess_onExit invoke a code st w))"
  by (auto simp: registry_inv_def ptyProcess_onExit_def Let_def split_beta map_of_delProp
      split: if_splits)

lemma registry_inv_getOrCreateSession:
  assumes "registry_inv st"
    and "env_generateId env \<notin> snd ` set (tm_projectToSession st)"
  shows "registry_inv (fst (snd (getOrCreateSession invoke env p st w)))"
proof -
  let ?found = "(case map_of (tm_projectToSession st) p of
              None \<Rightarrow> None
            | Some existingId \<Rightarrow>
                if existingId \<noteq> [] then map_of (tm_sessions st) existingId else None)"
  show ?thesis
  proof (cases ?found)
    case (Some a)
    then show ?thesis
      using assms(1) by (auto simp: getOrCreateSession_def registry_inv_def)
  next
    case None
    show ?thesis
    proof (cases "env_existsSync env p")
      case False
      with None assms(1) show ?thesis
        by (auto simp: getOrCreateSession_def registry_inv_def)
    next
      case True
      show ?thesis
      proof (cases "env_spawn env")
        case (Inl m)
        with None True assms(1) show ?thesis
          by (auto simp: getOrCreateSession_def registry_inv_def)
      next
        case (Inr h)
        have fresh: "\<And>q. map_of (tm_projectToSession st) q \<noteq> Some (env_generateId env)"
          using assms(2) by (metis map_of_SomeD snd_conv image_eqI)
        from None True Inr assms(1) fresh show ?thesis
          by (auto simp: getOrCreateSession_def registry_inv_def Let_def split_beta
              map_of_setProp less_Suc_eq split: if_splits)
      qed
    qed
  qed
qed

lemma close_removes_from_path_map:
  assumes "registry_inv st"
  shows "map_of (tm_projectToSession (snd (TerminalManager_close sid st))) p \<noteq> Some sid
     \<or> map_of (tm_sessions st) sid = None"
  using assms
  by (auto simp: registry_inv_def TerminalManager_close_def TerminalManager_getSession_def
      map_of_delProp split: option.splits)

lemma registry_inv_closeAll:
  "registry_inv st \<Longrightarrow> registry_inv (TerminalManager_closeAll st)"
proof -
  have "registry_inv s \<Longrightarrow> registry_inv (foldl (\<lambda>s sid. snd (TerminalManager_close sid s)) s ids)"
    for s :: "'a TerminalManager" and ids
    by (induction ids arbitrary: s) (simp_all add: registry_inv_close)
  then show "registry_inv st \<Longrightarrow> registry_inv (TerminalManager_closeAll st)"
    by (simp add: TerminalManager_closeAll_def)
qed

subsection \<open>A concrete registry\<close>

text \<open>
  One session \<^verbatim>\<open>term_1\<close> for the project \<^verbatim>\<open>/p\<close>, with pseudo-terminal 7 and the
  subscribers 1 and 2, in a registry that has done nothing yet. \<open>silent\<close> is a world
  without content in which no callback throws.
\<close>

definition example_session :: "nat TerminalSession" where
  "example_session =
     \<lparr>t_id = ascii ''term_1'', t_projectPath = ascii ''/p'', t_projectName = ascii ''p'',
      t_ptyProcess = 7, t_buffer = [], t_maxBufferLines = 5000, t_createdAt = 0,
      t_lastActivity = 0, t_subscribers = [1, 2]\<rparr>"

definition example_registry :: "nat TerminalManager" where
  "example_registry =
     \<lparr>tm_heap = (\<lambda>a. example_session), tm_next = 1,
      tm_sessions = [(ascii ''term_1'', 0)],
      tm_projectToSession = [(ascii ''/p'', ascii ''term_1'')],
      tm_shell = ascii ''bash'', tm_pty = [], tm_console = []\<rparr>"

definition silent :: "(nat, 'ev, unit) invoke" where
  "silent cb ev w = (w, None)"

theorem C6_close_idempotent_witness:
  "fst (TerminalManager_close (ascii ''term_1'') example_registry) = True
   \<and> tm_pty (snd (TerminalManager_close (ascii ''term_1'') example_registry)) = [PtyKill 7]
   \<and> fst (TerminalManager_close (ascii ''term_1'')
            (snd (TerminalManager_close (ascii ''term_1'') example_registry))) = False
   \<and> tm_pty (snd (TerminalManager_close (ascii ''term_1'')
            (snd (TerminalManager_close (ascii ''term_1'') example_registry)))) = [PtyKill 7]
   \<and> tm_sessions (snd (TerminalManager_close (ascii ''term_1'') example_registry)) = []
   \<and> tm_projectToSession (snd (TerminalManager_close (ascii ''term_1'') example_registry)) = []
   \<and> (\<forall>p. map_of (tm_projectToSession
                     (snd (TerminalManager_close (ascii ''term_1'') example_registry))) p
            \<noteq> Some (ascii ''term_1''))"
proof -
  let ?sid = "ascii ''term_1''"
  let ?st1 = "snd (TerminalManager_close ?sid example_registry)"
  have g: "TerminalManager_getSession example_registry ?sid = Some (0, example_session)"
    by (simp add: TerminalManager_getSession_def example_registry_def)
  have own: "\<forall>p. map_of (tm_projectToSession example_registry) p = Some ?sid
      \<longrightarrow> p = t_projectPath example_session"
    by (simp add: example_registry_def example_session_def)
  note t = C6_close_idempotent [where st = example_registry and sid = ?sid]
  from t g own have a: "fst (TerminalManager_close ?sid example_registry) = True"
    and b: "tm_pty ?st1 = tm_pty example_registry @ [PtyKill (t_ptyProcess example_session)]"
    and c: "\<forall>p. map_of (tm_projectToSession ?st1) p \<noteq> Some ?sid"
    and d: "TerminalManager_close ?sid ?st1 = (False, ?st1)"
    by simp_all
  have cl: "?st1 = example_registry
      \<lparr>tm_pty := tm_pty example_registry @ [PtyKill (t_ptyProcess example_session)],
       tm_sessions := delProp ?sid (tm_sessions example_registry),
       tm_projectToSession :=
         delProp (t_projectPath example_session) (tm_projectToSession example_registry)\<rparr>"
    by (simp add: TerminalManager_close_def g)
  have e: "tm_sessions ?st1 = []" "tm_projectToSession ?st1 = []"
    unfolding cl by (simp_all add: delProp_def example_registry_def example_session_def)
  from a b c d e show ?thesis
    by (simp add: example_registry_def example_session_def)
qed

theorem C7_buffer_bounded_witness:
  "t_buffer (tm_heap (fst (ptyProcess_onData_all silent 0
       [(1, ascii ''a'' @ [0x0A] @ ascii ''b''), (2, ascii ''c'')]
       (example_registry
          \<lparr>tm_heap := (\<lambda>a. example_session\<lparr>t_maxBufferLines := 2, t_buffer := [ascii ''x'']\<rparr>)\<rparr>)
       ())) 0)
   = [ascii ''b'', ascii ''c'']"
proof -
  let ?st = "example_registry
          \<lparr>tm_heap := (\<lambda>a. example_session\<lparr>t_maxBufferLines := 2, t_buffer := [ascii ''x'']\<rparr>)\<rparr>"
  let ?ds = "[(1::nat, ascii ''a'' @ [0x0A] @ ascii ''b''), (2, ascii ''c'')]"
  have m: "0 < t_maxBufferLines (tm_heap ?st 0)" by simp
  have n: "?ds \<noteq> []" by simp
  have l: "concat (map (\<lambda>d. split_nl (snd d)) ?ds) = [ascii ''a'', ascii ''b'', ascii ''c'']"
    by (simp add: ascii_def)
  from C7_buffer_bounded [OF m n, where invoke = silent and w = "()"] show ?thesis
    unfolding Let_def l by simp
qed

section \<open>The agent-invocation registry (cli-chat-manager.ts)\<close>

subsection \<open>Conversion to string\<close>

text \<open>
  \<^verbatim>\<open>this.currentMessage += content\<close> and a template literal convert a value to a string.
  The text of a \<^verbatim>\<open>Date\<close> depends on the time zone and is left empty here: the values
  converted come out of \<^verbatim>\<open>JSON.parse\<close> or are exit codes, and none is a date.
\<close>

fun joinWith :: "jsstring \<Rightarrow> jsstring list \<Rightarrow> jsstring" where
  "joinWith sep [] = []"
| "joinWith sep [l] = l"
| "joinWith sep (l # ls) = l @ sep @ joinWith sep ls"

fun toStr :: "jsval \<Rightarrow> jsstring" where
  "toStr JUndefined = ascii ''undefined''"
| "toStr JNull = ascii ''null''"
| "toStr (JBool b) = (if b then ascii ''true'' else ascii ''false'')"
| "toStr (JNum n) = (if n < 0 then 0x2D # decimal (nat (- n)) else decimal (nat n))"
| "toStr (JStr s) = s"
| "toStr (JArr xs) = joinWith (ascii '','') (map (\<lambda>x. if nullish x then [] else toStr x) xs)"
| "toStr (JObj kvs) = ascii ''[object Object]''"
| "toStr (JDate d) = []"

subsection \<open>Data\<close>

datatype Role = User | Assistant

text \<open>\<^verbatim>\<open>ChatSession\<close> (fields prefixed \<open>c_\<close>); \<open>c_currentProcess\<close> is a process handle.\<close>

record 'cb ChatSession =
  c_id :: jsstring
  c_projectPath :: jsstring
  c_projectName :: jsstring
  c_subscribers :: "'cb list"
  c_isReady :: bool
  c_model :: "jsstring option"
  c_createdAt :: nat
  c_currentProcess :: "nat option"
  c_conversationHistory :: "(Role \<times> jsstring) list"

text \<open>
  One child process started by \<open>send\<close>, with what its handlers have captured: the
  session object (its address), the accumulator, the line buffer and the start time.
  \<open>p_exited\<close> becomes true when the \<^verbatim>\<open>close\<close> event of the process is delivered.
\<close>

record ChildProcess =
  p_session :: nat
  p_args :: "jsstring list"
  p_cwd :: jsstring
  p_accumulator :: MessageAccumulator
  p_lineBuffer :: jsstring
  p_startTime :: nat
  p_exited :: bool

text \<open>
  The registry: the store of session objects, the map from id to session object, every
  child process spawned so far (the handle of a process is its index), the handles on
  which \<^verbatim>\<open>kill()\<close> was called, and the console.
\<close>

record 'cb CLIChatManager =
  cm_heap :: "nat \<Rightarrow> 'cb ChatSession"
  cm_next :: nat
  cm_sessions :: "(jsstring \<times> nat) list"
  cm_geminiPath :: jsstring
  cm_processes :: "ChildProcess list"
  cm_killed :: "nat list"
  cm_console :: console

subsection \<open>Operations\<close>

definition CLIChatManager_broadcast ::
  "('cb, CLIEvent, 'w) invoke \<Rightarrow> 'cb ChatSession \<Rightarrow> CLIEvent
   \<Rightarrow> 'cb CLIChatManager \<Rightarrow> 'w \<Rightarrow> 'cb CLIChatManager \<times> 'w" where
  "CLIChatManager_broadcast invoke session ev st w =
     (let (con, w') = broadcast_loop invoke (ascii ''[CLIChat] Error in subscriber callback:'')
                        ev (c_subscribers session) (cm_console st, w)
      in (st\<lparr>cm_console := con\<rparr>, w'))"

definition CLIChatManager_getSession ::
  "'cb CLIChatManager \<Rightarrow> jsstring \<Rightarrow> (nat \<times> 'cb ChatSession) option" where
  "CLIChatManager_getSession st sessionId =
     (case map_of (cm_sessions st) sessionId of
        None \<Rightarrow> None
      | Some a \<Rightarrow> Some (a, cm_heap st a))"

definition modelOf :: "'cb ChatSession \<Rightarrow> jsval" where
  "modelOf session = (case c_model session of None \<Rightarrow> JUndefined | Some m \<Rightarrow> JStr m)"

text \<open>
  \<open>create\<close>; \<open>newId\<close> is what \<open>generateId\<close> draws and \<open>basename\<close> is
  \<^verbatim>\<open>path.basename\<close>. The result is the address of the new session object.
\<close>

definition CLIChatManager_create ::
  "('cb, CLIEvent, 'w) invoke \<Rightarrow> nat \<Rightarrow> jsstring \<Rightarrow> (jsstring \<Rightarrow> jsstring) \<Rightarrow> jsstring
   \<Rightarrow> 'cb CLIChatManager \<Rightarrow> 'w \<Rightarrow> nat \<times> 'cb CLIChatManager \<times> 'w" where
  "CLIChatManager_create invoke now newId basename projectPath st w =
     (let a = cm_next st;
          session =
            \<lparr>c_id = newId, c_projectPath = projectPath, c_projectName = basename projectPath,
             c_subscribers = [], c_isReady = True, c_model = Some (ascii ''gemini-3-pro''),
             c_createdAt = now, c_currentProcess = None, c_conversationHistory = []\<rparr>;
          st1 = st\<lparr>cm_heap := (cm_heap st)(a := session), cm_next := Suc a,
                   cm_sessions := setProp newId a (cm_sessions st)\<rparr>;
          (st2, w') = CLIChatManager_broadcast invoke session
                        ((event T_init (JDate (JNum (int now))))
                           \<lparr>ev_sessionId := JStr newId, ev_model := modelOf session\<rparr>)
                        st1 w
      in (a, st2, w'))"

text \<open>
  \<^verbatim>\<open>spawn(file, args, { cwd, env })\<close> of \<^verbatim>\<open>child_process\<close> returns a handle or throws
  at once. It throws a TypeError (\<^verbatim>\<open>ERR_INVALID_ARG_VALUE\<close>) when the file is empty and
  when the file, an argument or the working directory contains a NUL character. It throws
  the error of the operating system when the system refuses the process with an error
  other than \<^verbatim>\<open>ENOENT\<close>, \<^verbatim>\<open>EACCES\<close>, \<^verbatim>\<open>EAGAIN\<close>, \<^verbatim>\<open>EMFILE\<close>, \<^verbatim>\<open>ENFILE\<close>
  (for instance \<^verbatim>\<open>E2BIG\<close>, an argument too long): \<open>refused\<close> says so. Those five are
  delivered later, as the \<^verbatim>\<open>error\<close> event of a handle that was returned. \<open>refused\<close>
  also stands for \<^verbatim>\<open>os.homedir()\<close> throwing while the options of the call are built:
  no process is started then either.
\<close>

definition spawn_throws :: "bool \<Rightarrow> jsstring \<Rightarrow> jsstring list \<Rightarrow> jsstring \<Rightarrow> js_error option" where
  "spawn_throws refused file args cwd =
     (if file = [] \<or> 0 \<in> set (concat (file # cwd # args)) then Some TypeError
      else if refused then Some SystemError
      else None)"

text \<open>
  \<open>send\<close>, up to its \<^verbatim>\<open>return true\<close>:
  \<^verbatim>\<open>
  const session = this.sessions.get(sessionId);
  if (!session) { console.error(`[CLIChat] Session not found: ${sessionId}`); return false; }
  session.conversationHistory.push({ role: 'user', content: message });
  this.broadcast(session, { type: 'user_message', timestamp: new Date(), role: 'user',
                            content: message });
  this.broadcast(session, { type: 'thinking', timestamp: new Date() });
  const args = ['-o', 'stream-json', '-p', message];
  const geminiProcess = spawn(this.geminiPath, args, { cwd: session.projectPath, env: ... });
  session.currentProcess = geminiProcess;
  const accumulator = new MessageAccumulator();
  let lineBuffer = '';
  const startTime = Date.now();
  ... handlers ...
  return true;
  \<close>
  There is no test of \<^verbatim>\<open>session.currentProcess\<close> before the spawn, and no \<^verbatim>\<open>try\<close>
  around it: what \<^verbatim>\<open>spawn\<close> throws leaves \<open>send\<close> (\<open>Inl\<close>), after the push onto the
  history and the two broadcasts, with no process started and \<^verbatim>\<open>currentProcess\<close> as it
  was.
\<close>

definition CLIChatManager_send ::
  "('cb, CLIEvent, 'w) invoke \<Rightarrow> nat \<Rightarrow> bool \<Rightarrow> jsstring \<Rightarrow> jsstring
   \<Rightarrow> 'cb CLIChatManager \<Rightarrow> 'w \<Rightarrow> (js_error + bool) \<times> 'cb CLIChatManager \<times> 'w" where
  "CLIChatManager_send invoke now refused sessionId message st w =
     (case CLIChatManager_getSession st sessionId of
        None \<Rightarrow>
          (Inr False,
           st\<lparr>cm_console := cm_console st
                @ [(ascii ''[CLIChat] Session not found: '' @ sessionId, JUndefined)]\<rparr>,
           w)
      | Some (a, session) \<Rightarrow>
          (let session1 = session\<lparr>c_conversationHistory :=
                                    c_conversationHistory session @ [(User, message)]\<rparr>;
               st1 = st\<lparr>cm_heap := (cm_heap st)(a := session1)\<rparr>;
               (st2, w1) = CLIChatManager_broadcast invoke session1
                             ((event T_user_message (JDate (JNum (int now))))
                                \<lparr>ev_role := JStr (ascii ''user''), ev_content := JStr message\<rparr>)
                             st1 w;
               (st3, w2) = CLIChatManager_broadcast invoke session1
                             (event T_thinking (JDate (JNum (int now)))) st2 w1;
               args = [ascii ''-o'', ascii ''stream-json'', ascii ''-p'', message]
           in case spawn_throws refused (cm_geminiPath st3) args (c_projectPath session1) of
                Some e \<Rightarrow> (Inl e, st3, w2)
              | None \<Rightarrow>
                  (let geminiProcess = length (cm_processes st3);
                       child = \<lparr>p_session = a, p_args = args, p_cwd = c_projectPath session1,
                                p_accumulator = new_MessageAccumulator, p_lineBuffer = [],
                                p_startTime = now, p_exited = False\<rparr>
                   in (Inr True,
                       st3\<lparr>cm_processes := cm_processes st3 @ [child],
                           cm_heap := (cm_heap st3)
                             (a := (cm_heap st3 a)\<lparr>c_currentProcess := Some geminiProcess\<rparr>)\<rparr>,
                       w2))))"

text \<open>
  One line of the output of a child, inside the \<^verbatim>\<open>for\<close> loop of the
  \<^verbatim>\<open>stdout\<close> handler. The loop state is the accumulator of the child, the registry
  and the world.
  \<^verbatim>\<open>
  const event = parseCLILine(line);
  if (event) {
    if (event.type === 'assistant_chunk') {
      const fullContent = accumulator.addChunk(event.content || '');
      this.broadcast(session, { ...event, content: fullContent, isStreaming: true });
    } else if (event.type === 'complete') {
      const finalContent = accumulator.complete();
      if (finalContent) {
        session.conversationHistory.push({ role: 'assistant', content: finalContent });
      }
      if (event.stats && !event.stats.durationMs) {
        event.stats.durationMs = Date.now() - startTime;
      }
      this.broadcast(session, event);
      accumulator.reset();
    } else { this.broadcast(session, event); }
  }
  \<close>
\<close>

definition stdout_line ::
  "('cb, CLIEvent, 'w) invoke \<Rightarrow> (jsstring \<Rightarrow> jsval option) \<Rightarrow> nat \<Rightarrow> nat \<Rightarrow> nat
   \<Rightarrow> MessageAccumulator \<times> 'cb CLIChatManager \<times> 'w \<Rightarrow> jsstring
   \<Rightarrow> MessageAccumulator \<times> 'cb CLIChatManager \<times> 'w" where
  "stdout_line invoke JSON_parse now a startTime acc_st_w line =
     (let (acc, st, w) = acc_st_w
      in case parseCLILine JSON_parse now line of
           None \<Rightarrow> (acc, st, w)
         | Some ev \<Rightarrow>
             if ev_type ev = T_assistant_chunk then
               (let (fullContent, acc1) =
                      MessageAccumulator_addChunk (toStr (js_or (ev_content ev) (JStr []))) acc;
                    (st1, w1) = CLIChatManager_broadcast invoke (cm_heap st a)
                                  (ev\<lparr>ev_content := JStr fullContent,
                                      ev_isStreaming := JBool True\<rparr>) st w
                in (acc1, st1, w1))
             else if ev_type ev = T_complete then
               (let (finalContent, acc1) = MessageAccumulator_complete acc;
                    st1 = (if finalContent \<noteq> [] then
                             st\<lparr>cm_heap := (cm_heap st)
                                  (a := (cm_heap st a)
                                     \<lparr>c_conversationHistory :=
                                        c_conversationHistory (cm_heap st a)
                                        @ [(Assistant, finalContent)]\<rparr>)\<rparr>
                           else st);
                    ev1 = (case ev_stats ev of
                             None \<Rightarrow> ev
                           | Some s \<Rightarrow>
                               if \<not> truthy (durationMs s) then
                                 ev\<lparr>ev_stats :=
                                      Some (s\<lparr>durationMs := JNum (int now - int startTime)\<rparr>)\<rparr>
                               else ev);
                    (st2, w1) = CLIChatManager_broadcast invoke (cm_heap st1 a) ev1 st1 w
                in (MessageAccumulator_reset acc1, st2, w1))
             else
               (let (st1, w1) = CLIChatManager_broadcast invoke (cm_heap st a) ev st w
                in (acc, st1, w1)))"

text \<open>
  The \<^verbatim>\<open>stdout\<close> handler of the child with handle \<open>h\<close>:
  \<^verbatim>\<open>
  lineBuffer += data.toString();
  const lines = lineBuffer.split('\n');
  lineBuffer = lines.pop() || '';
  for (const line of lines) { ... }
  \<close>
\<close>

definition stdout_onData ::
  "('cb, CLIEvent, 'w) invoke \<Rightarrow> (jsstring \<Rightarrow> jsval option) \<Rightarrow> nat \<Rightarrow> nat \<Rightarrow> jsstring
   \<Rightarrow> 'cb CLIChatManager \<Rightarrow> 'w \<Rightarrow> 'cb CLIChatManager \<times> 'w" where
  "stdout_onData invoke JSON_parse now h data st w =
     (if h < length (cm_processes st) then
        (let child = cm_processes st ! h;
             lines = split_nl (p_lineBuffer child @ data);
             (acc, st1, w1) =
               foldl (stdout_line invoke JSON_parse now (p_session child) (p_startTime child))
                 (p_accumulator child, st, w) (butlast lines)
         in (st1\<lparr>cm_processes := (cm_processes st1)
                    [h := child\<lparr>p_lineBuffer := last lines, p_accumulator := acc\<rparr>]\<rparr>,
             w1))
      else (st, w))"

text \<open>
  The \<^verbatim>\<open>close\<close> handler of the child \<open>h\<close>; \<open>code\<close> is a number, or \<^verbatim>\<open>null\<close> when a
  signal ended the process.
  \<^verbatim>\<open>
  session.currentProcess = undefined;
  if (code !== 0) {
    this.broadcast(session, { type: 'error', timestamp: new Date(),
                              content: `Process exited with code ${code}` });
  }
  \<close>
\<close>

definition process_onClose ::
  "('cb, CLIEvent, 'w) invoke \<Rightarrow> nat \<Rightarrow> nat \<Rightarrow> jsval
   \<Rightarrow> 'cb CLIChatManager \<Rightarrow> 'w \<Rightarrow> 'cb CLIChatManager \<times> 'w" where
  "process_onClose invoke now h code st w =
     (if h < length (cm_processes st) then
        (let child = cm_processes st ! h;
             a = p_session child;
             session = (cm_heap st a)\<lparr>c_currentProcess := None\<rparr>;
             st1 = st\<lparr>cm_heap := (cm_heap st)(a := session),
                      cm_processes := (cm_processes st)[h := child\<lparr>p_exited := True\<rparr>]\<rparr>
         in if \<not> strictEq code (JNum 0) then
              CLIChatManager_broadcast invoke session
                ((event T_error (JDate (JNum (int now))))
                   \<lparr>ev_content := JStr (ascii ''Process exited with code '' @ toStr code)\<rparr>)
                st1 w
            else (st1, w))
      else (st, w))"

text \<open>The \<^verbatim>\<open>error\<close> handler of the child \<open>h\<close>; \<open>message\<close> is \<^verbatim>\<open>err.message\<close>.\<close>

definition process_onError ::
  "('cb, CLIEvent, 'w) invoke \<Rightarrow> nat \<Rightarrow> nat \<Rightarrow> jsstring
   \<Rightarrow> 'cb CLIChatManager \<Rightarrow> 'w \<Rightarrow> 'cb CLIChatManager \<times> 'w" where
  "process_onError invoke now h message st w =
     (if h < length (cm_processes st) then
        CLIChatManager_broadcast invoke (cm_heap st (p_session (cm_processes st ! h)))
          ((event T_error (JDate (JNum (int now))))
             \<lparr>ev_content := JStr (ascii ''Process error: '' @ message)\<rparr>)
          (st\<lparr>cm_console := cm_console st
                 @ [(ascii ''[CLIChat] Process error:'', JStr message)]\<rparr>) w
      else (st, w))"

text \<open>
  \<open>subscribe\<close>. The \<^verbatim>\<open>init\<close> event is delivered outside any \<^verbatim>\<open>try\<close>, so a callback
  that throws makes \<open>subscribe\<close> throw (\<open>Inl\<close>), after the callback was added.
\<close>

definition CLIChatManager_subscribe ::
  "('cb, CLIEvent, 'w) invoke \<Rightarrow> nat \<Rightarrow> jsstring \<Rightarrow> 'cb \<Rightarrow> 'cb CLIChatManager \<Rightarrow> 'w
   \<Rightarrow> (jsval + 'cb unsubscribe) \<times> 'cb CLIChatManager \<times> 'w" where
  "CLIChatManager_subscribe invoke now sessionId callback st w =
     (case CLIChatManager_getSession st sessionId of
        None \<Rightarrow>
          (Inr NoOp,
           st\<lparr>cm_console := cm_console st
                @ [(ascii ''[CLIChat] Session not found for subscription: '' @ sessionId,
                    JUndefined)]\<rparr>,
           w)
      | Some (a, session) \<Rightarrow>
          (let session' = session\<lparr>c_subscribers := Set_add callback (c_subscribers session)\<rparr>;
               st' = st\<lparr>cm_heap := (cm_heap st)(a := session')\<rparr>
           in if c_isReady session' then
                (case invoke callback
                        ((event T_init (JDate (JNum (int now))))
                           \<lparr>ev_sessionId := JStr sessionId, ev_model := modelOf session'\<rparr>) w of
                   (w', None) \<Rightarrow> (Inr (DeleteSubscriber a callback), st', w')
                 | (w', Some err) \<Rightarrow> (Inl err, st', w'))
              else (Inr (DeleteSubscriber a callback), st', w)))"

fun CLIChatManager_unsubscribe ::
  "'cb unsubscribe \<Rightarrow> 'cb CLIChatManager \<Rightarrow> 'cb CLIChatManager" where
  "CLIChatManager_unsubscribe NoOp st = st"
| "CLIChatManager_unsubscribe (DeleteSubscriber a callback) st =
     st\<lparr>cm_heap := (cm_heap st)
          (a := (cm_heap st a)\<lparr>c_subscribers := Set_delete callback (c_subscribers (cm_heap st a))\<rparr>)\<rparr>"

definition CLIChatManager_close :: "jsstring \<Rightarrow> 'cb CLIChatManager \<Rightarrow> 'cb CLIChatManager" where
  "CLIChatManager_close sessionId st =
     (case CLIChatManager_getSession st sessionId of
        None \<Rightarrow> st
      | Some (a, session) \<Rightarrow>
          (let st1 = (case c_currentProcess session of
                        None \<Rightarrow> st
                      | Some h \<Rightarrow> st\<lparr>cm_killed := cm_killed st @ [h]\<rparr>)
           in st1\<lparr>cm_sessions := delProp sessionId (cm_sessions st1)\<rparr>))"

text \<open>\<^verbatim>\<open>ChatSessionInfo\<close>; the date is kept as a clock reading.\<close>

record ChatSessionInfo =
  ci_id :: jsstring
  ci_projectPath :: jsstring
  ci_projectName :: jsstring
  ci_model :: "jsstring option"
  ci_isReady :: bool
  ci_createdAt :: nat

definition CLIChatManager_listSessions :: "'cb CLIChatManager \<Rightarrow> ChatSessionInfo list" where
  "CLIChatManager_listSessions st =
     map (\<lambda>(sid, a).
            let session = cm_heap st a
            in \<lparr>ci_id = c_id session, ci_projectPath = c_projectPath session,
                ci_projectName = c_projectName session, ci_model = c_model session,
                ci_isReady = c_isReady session, ci_createdAt = c_createdAt session\<rparr>)
         (cm_sessions st)"

definition CLIChatManager_closeAll :: "'cb CLIChatManager \<Rightarrow> 'cb CLIChatManager" where
  "CLIChatManager_closeAll st =
     st\<lparr>cm_killed := cm_killed st
           @ concat (map (\<lambda>(sid, a). case c_currentProcess (cm_heap st a) of
                                        None \<Rightarrow> [] | Some h \<Rightarrow> [h])
                       (cm_sessions st)),
        cm_sessions := []\<rparr>"

subsection \<open>Concrete registries and callbacks\<close>

text \<open>
  \<open>recording outcome\<close> is a world that is the list of the calls received by callbacks, in
  order; \<open>outcome cb ev\<close> says whether the callback \<open>cb\<close> returns from the event \<open>ev\<close>
  (\<open>None\<close>) or throws (\<open>Some err\<close>).
\<close>

definition recording :: "('cb \<Rightarrow> 'ev \<Rightarrow> jsval option) \<Rightarrow> ('cb, 'ev, ('cb \<times> 'ev) list) invoke" where
  "recording outcome cb ev calls = (calls @ [(cb, ev)], outcome cb ev)"

text \<open>The first subscriber throws on every event, every other one returns.\<close>

definition first_throws :: "nat \<Rightarrow> 'ev \<Rightarrow> jsval option" where
  "first_throws cb ev = (if cb = 1 then Some (JStr (ascii ''boom'')) else None)"

text \<open>One chat session \<^verbatim>\<open>chat_1\<close> with the subscribers 1 and 2 and no process.\<close>

definition example_chat_session :: "nat ChatSession" where
  "example_chat_session =
     \<lparr>c_id = ascii ''chat_1'', c_projectPath = ascii ''/p'', c_projectName = ascii ''p'',
      c_subscribers = [1, 2], c_isReady = True, c_model = Some (ascii ''gemini-3-pro''),
      c_createdAt = 0, c_currentProcess = None, c_conversationHistory = []\<rparr>"

definition example_chat_registry :: "nat CLIChatManager" where
  "example_chat_registry =
     \<lparr>cm_heap = (\<lambda>a. example_chat_session), cm_next = 1,
      cm_sessions = [(ascii ''chat_1'', 0)], cm_geminiPath = ascii ''gemini'',
      cm_processes = [], cm_killed = [], cm_console = []\<rparr>"

subsection \<open>Properties of the two registries\<close>

lemma broadcast_loop_world:
  "snd (broadcast_loop invoke label ev cbs (con, w)) = foldl (\<lambda>w cb. fst (invoke cb ev w)) w cbs"
  by (induction cbs arbitrary: con w) (auto split: prod.splits option.splits)

lemma broadcast_loop_recording:
  "broadcast_loop (recording outcome) label ev cbs (con, calls)
   = (con @ concat (map (\<lambda>cb. case outcome cb ev of None \<Rightarrow> [] | Some err \<Rightarrow> [(label, err)]) cbs),
      calls @ map (\<lambda>cb. (cb, ev)) cbs)"
  by (induction cbs arbitrary: con calls) (auto simp: recording_def split: option.splits)

lemma CLIChatManager_broadcast_frame [simp]:
  "cm_heap (fst (CLIChatManager_broadcast invoke session ev st w)) = cm_heap st"
  "cm_sessions (fst (CLIChatManager_broadcast invoke session ev st w)) = cm_sessions st"
  "cm_processes (fst (CLIChatManager_broadcast invoke session ev st w)) = cm_processes st"
  "cm_killed (fst (CLIChatManager_broadcast invoke session ev st w)) = cm_killed st"
  "cm_next (fst (CLIChatManager_broadcast invoke session ev st w)) = cm_next st"
  "cm_geminiPath (fst (CLIChatManager_broadcast invoke session ev st w)) = cm_geminiPath st"
  by (simp_all add: CLIChatManager_broadcast_def split_beta)




text \<open>
  C8. One broadcast, in either registry, calls every subscriber of the session once, in
  insertion order, whether or not earlier subscribers threw: for any callbacks the world
  afterwards is the world after all the calls, and for recording callbacks the calls
  received are exactly one per subscriber. Each thrown value is logged on the console.
  No session object changes, so no subscriber leaves a subscriber set.
\<close>

theorem C8_broadcast_isolation:
  "snd (TerminalManager_broadcast invoke tsession tev tst w)
     = foldl (\<lambda>w cb. fst (invoke cb tev w)) w (t_subscribers tsession)
   \<and> snd (TerminalManager_broadcast (recording toutcome) tsession tev tst tcalls)
     = tcalls @ map (\<lambda>cb. (cb, tev)) (t_subscribers tsession)
   \<and> tm_console (fst (TerminalManager_broadcast (recording toutcome) tsession tev tst tcalls))
     = tm_console tst
       @ concat (map (\<lambda>cb. case toutcome cb tev of
                               None \<Rightarrow> []
                             | Some err \<Rightarrow> [(ascii ''[Terminal] Error in subscriber callback:'', err)])
                   (t_subscribers tsession))
   \<and> tm_heap (fst (TerminalManager_broadcast invoke tsession tev tst w)) = tm_heap tst
   \<and> tm_sessions (fst (TerminalManager_broadcast invoke tsession tev tst w)) = tm_sessions tst
   \<and> snd (CLIChatManager_broadcast invoke' csession cev cst w')
     = foldl (\<lambda>w cb. fst (invoke' cb cev w)) w' (c_subscribers csession)
   \<and> snd (CLIChatManager_broadcast (recording coutcome) csession cev cst ccalls)
     = ccalls @ map (\<lambda>cb. (cb, cev)) (c_subscribers csession)
   \<and> cm_console (fst (CLIChatManager_broadcast (recording coutcome) csession cev cst ccalls))
     = cm_console cst
       @ concat (map (\<lambda>cb. case coutcome cb cev of
                               None \<Rightarrow> []
                             | Some err \<Rightarrow> [(ascii ''[CLIChat] Error in subscriber callback:'', err)])
                   (c_subscribers csession))
   \<and> cm_heap (fst (CLIChatManager_broadcast invoke' csession cev cst w')) = cm_heap cst
   \<and> cm_sessions (fst (CLIChatManager_broadcast invoke' csession cev cst w')) = cm_sessions cst"
  by (simp add: TerminalManager_broadcast_def CLIChatManager_broadcast_def split_beta
      broadcast_loop_world broadcast_loop_recording)

theorem C8_broadcast_isolation_witness:
  "snd (TerminalManager_broadcast (recording first_throws) example_session
          (terminalEvent TE_output (ascii ''term_1'')) example_registry [])
     = [(1, terminalEvent TE_output (ascii ''term_1'')),
        (2, terminalEvent TE_output (ascii ''term_1''))]
   \<and> t_subscribers (tm_heap (fst (TerminalManager_broadcast (recording first_throws)
          example_session (terminalEvent TE_output (ascii ''term_1'')) example_registry [])) 0)
     = [1, 2]
   \<and> snd (CLIChatManager_broadcast (recording first_throws) example_chat_session
          (event T_thinking (JDate (JNum 0))) example_chat_registry [])
     = [(1, event T_thinking (JDate (JNum 0))), (2, event T_thinking (JDate (JNum 0)))]
   \<and> c_subscribers (cm_heap (fst (CLIChatManager_broadcast (recording first_throws)
          example_chat_session (event T_thinking (JDate (JNum 0))) example_chat_registry [])) 0)
     = [1, 2]"
proof -
  note t = C8_broadcast_isolation
    [where invoke = "recording first_throws" and toutcome = first_throws
       and tsession = example_session and tev = "terminalEvent TE_output (ascii ''term_1'')"
       and tst = example_registry and w = "[]" and tcalls = "[]"
       and invoke' = "recording first_throws" and coutcome = first_throws
       and csession = example_chat_session and cev = "event T_thinking (JDate (JNum 0))"
       and cst = example_chat_registry and w' = "[]" and ccalls = "[]"]
  let ?tev = "terminalEvent TE_output (ascii ''term_1'')"
  let ?cev = "event T_thinking (JDate (JNum 0))"
  from t have c1: "snd (TerminalManager_broadcast (recording first_throws) example_session
          ?tev example_registry [])
        = [] @ map (\<lambda>cb. (cb, ?tev)) (t_subscribers example_session)"
    by blast
  from t have c2: "tm_heap (fst (TerminalManager_broadcast (recording first_throws)
          example_session ?tev example_registry [])) = tm_heap example_registry"
    by blast
  from t have c3: "snd (CLIChatManager_broadcast (recording first_throws) example_chat_session
          ?cev example_chat_registry [])
        = [] @ map (\<lambda>cb. (cb, ?cev)) (c_subscribers example_chat_session)"
    by blast
  from t have c4: "cm_heap (fst (CLIChatManager_broadcast (recording first_throws)
          example_chat_session ?cev example_chat_registry [])) = cm_heap example_chat_registry"
    by blast
  have s: "t_subscribers example_session = [1, 2]" "c_subscribers example_chat_session = [1, 2]"
    "tm_heap example_registry 0 = example_session"
    "cm_heap example_chat_registry 0 = example_chat_session"
    by (simp_all add: example_session_def example_chat_session_def example_registry_def
        example_chat_registry_def)
  show ?thesis
    unfolding c1 c2 c3 c4 by (simp add: s)
qed

text \<open>
  C9. Subscribing to an id that is in neither map: both \<open>subscribe\<close> methods return the
  no-op closure without throwing, call no callback (the world is unchanged, whatever the
  callbacks are) and change no session; the chat registry logs the miss on the console.
  Calling the no-op closure any number of times, in any later state, changes nothing.
\<close>

theorem C9_subscribe_unknown_noop:
  assumes "map_of (tm_sessions tst) tsid = None" and "map_of (cm_sessions cst) csid = None"
  shows "TerminalManager_subscribe invoke tsid tcb tst w = (Inr NoOp, tst, w)
    \<and> (TerminalManager_unsubscribe NoOp ^^ n) tst' = tst'
    \<and> CLIChatManager_subscribe invoke' now csid ccb cst w'
        = (Inr NoOp,
           cst\<lparr>cm_console := cm_console cst
                 @ [(ascii ''[CLIChat] Session not found for subscription: '' @ csid,
                     JUndefined)]\<rparr>,
           w')
    \<and> (CLIChatManager_unsubscribe NoOp ^^ n) cst' = cst'"
proof -
  have t: "(TerminalManager_unsubscribe NoOp ^^ n) tst' = tst'"
    by (induction n) simp_all
  have c: "(CLIChatManager_unsubscribe NoOp ^^ n) cst' = cst'"
    by (induction n) simp_all
  from assms t c show ?thesis
    by (simp add: TerminalManager_subscribe_def TerminalManager_getSession_def
        CLIChatManager_subscribe_def CLIChatManager_getSession_def)
qed

theorem C9_subscribe_unknown_noop_witness:
  "fst (TerminalManager_subscribe (recording first_throws) (ascii ''nope'') 3
          example_registry []) = Inr NoOp
   \<and> snd (snd (TerminalManager_subscribe (recording first_throws) (ascii ''nope'') 3
          example_registry [])) = []
   \<and> (TerminalManager_unsubscribe NoOp ^^ 2) example_registry = example_registry
   \<and> fst (CLIChatManager_subscribe (recording first_throws) 5 (ascii ''nope'') 3
          example_chat_registry []) = Inr NoOp
   \<and> snd (snd (CLIChatManager_subscribe (recording first_throws) 5 (ascii ''nope'') 3
          example_chat_registry [])) = []
   \<and> (CLIChatManager_unsubscribe NoOp ^^ 2) example_chat_registry = example_chat_registry"
proof -
  have a: "map_of (tm_sessions example_registry) (ascii ''nope'') = None"
    by (simp add: example_registry_def)
  have b: "map_of (cm_sessions example_chat_registry) (ascii ''nope'') = None"
    by (simp add: example_chat_registry_def)
  note t = C9_subscribe_unknown_noop
    [OF a b, where invoke = "recording first_throws" and tcb = 3 and w = "[]"
       and n = 2 and tst' = example_registry and invoke' = "recording first_throws"
       and now = 5 and ccb = 3 and w' = "[]" and cst' = example_chat_registry]
  from t show ?thesis by simp
qed

section \<open>The connection gateway (index.ts)\<close>

subsection \<open>Data\<close>

datatype OutType =
    O_output | O_error | O_status | O_projects | O_ready | O_complete | O_token
  | O_terminal_output | O_terminal_exit | O_terminal_created | O_terminal_list
  | O_terminal_closed | O_cli_chat_event | O_cli_chat_created | O_cli_chat_list

text \<open>
  The \<^verbatim>\<open>data\<close> field of an outgoing message: absent, a text, or the JSON text of an
  event or of a list of chat sessions (\<^verbatim>\<open>JSON.stringify(event)\<close>,
  \<^verbatim>\<open>JSON.stringify(chatSessions)\<close>), kept as the value that is serialised.
\<close>

datatype payload =
    NoData
  | Text jsstring
  | EventJson CLIEvent
  | ChatListJson "ChatSessionInfo list"

record OutgoingMessage =
  o_type :: OutType
  o_data :: payload
  o_status :: "jsobject option"
  o_projects :: jsval
  o_token :: "jsstring option"
  o_sessionId :: "jsstring option"
  o_exitCode :: "int option"
  o_sessions :: "SessionInfo list option"

definition outgoing :: "OutType \<Rightarrow> OutgoingMessage" where
  "outgoing t =
     \<lparr>o_type = t, o_data = NoData, o_status = None, o_projects = JUndefined, o_token = None,
      o_sessionId = None, o_exitCode = None, o_sessions = None\<rparr>"

definition errorMessage :: "jsstring \<Rightarrow> OutgoingMessage" where
  "errorMessage text = (outgoing O_error)\<lparr>o_data := Text text\<rparr>"

text \<open>
  A socket is a number. The callbacks that the gateway registers are closures over the
  socket (and, for a chat, over the session id of the message); each closure created is a
  new object, so it carries the number of its creation as its identity.
\<close>

type_synonym term_cb = "nat \<times> nat"
type_synonym chat_cb = "nat \<times> nat \<times> jsstring"

datatype closure = TerminalUnsub "term_cb unsubscribe" | ChatUnsub "chat_cb unsubscribe"

text \<open>\<^verbatim>\<open>ClientState\<close>: the set of subscribed session ids and the stored closures.\<close>

record ClientState =
  cl_subscriptions :: "jsstring list"
  cl_unsubscribeFns :: "(jsstring \<times> closure) list"

text \<open>
  The sockets: which of them are in the state \<^verbatim>\<open>OPEN\<close>, and the messages handed to
  \<^verbatim>\<open>ws.send\<close> so far.
\<close>

record net =
  n_open :: "nat \<Rightarrow> bool"
  n_sent :: "(nat \<times> OutgoingMessage) list"

text \<open>The daemon: state store, the two registries, the connected clients, the sockets.\<close>

record hub =
  h_fs :: fsys
  h_terminals :: "term_cb TerminalManager"
  h_chats :: "chat_cb CLIChatManager"
  h_clients :: "(nat \<times> ClientState) list"
  h_net :: net
  h_closures :: nat

text \<open>
  What \<^verbatim>\<open>streamGeminiResponse\<close> (gemini-api.ts, a client of a hosted model) does with the
  callbacks it is given, and how its promise ends.
\<close>

datatype stream_call = OnToken jsstring | OnComplete jsstring | OnError jsstring

datatype stream_end = Resolved | RejectedError jsstring | RejectedOther

text \<open>
  What the environment supplies to one call of \<open>handleMessage\<close>: the two JSON functions,
  the value \<^verbatim>\<open>uuidv4()\<close> would return, the clock, the environment of the terminal
  registry, the id the chat registry would draw, whether the operating system refuses
  the process that \<open>send\<close> spawns, the message texts of a TypeError of the engine and of
  an error of the operating system, and the behaviour of \<^verbatim>\<open>streamGeminiResponse\<close>.
\<close>

record gateway_env =
  g_JSON_parse :: "jsstring \<Rightarrow> jsval option"
  g_JSON_stringify :: "jsval \<Rightarrow> jsstring"
  g_uuid :: jsstring
  g_now :: nat
  g_term :: term_env
  g_chatId :: jsstring
  g_spawnRefused :: bool
  g_typeErrorMessage :: jsstring
  g_systemErrorMessage :: jsstring
  g_stream :: "jsstring \<Rightarrow> jsval \<Rightarrow> jsval \<Rightarrow> stream_call list \<times> stream_end"

text \<open>
  The console output of the gateway itself is not recorded.

  How a call of the asynchronous \<open>handleMessage\<close> ends: its promise resolves, or it is
  rejected with an error, each with the daemon as it is then. \<open>OutsideInterface\<close> stands
  for a message that passed the token check and has a field whose run-time type is not
  the one \<^verbatim>\<open>IncomingMessage\<close> declares; what the handlers do with it is not modelled.
\<close>

datatype handle_result = Returned hub | Rejected js_error hub | OutsideInterface

subsection \<open>Sending\<close>

text \<open>
  \<^verbatim>\<open>
  function sendTo(ws, message) {
    if (ws.readyState === WebSocket.OPEN) { ws.send(JSON.stringify(message)); } }
  function broadcast(message) {
    for (const [ws] of clients) { if (ws.readyState === WebSocket.OPEN) { ws.send(data); } } }
  \<close>
\<close>

definition sendTo :: "nat \<Rightarrow> OutgoingMessage \<Rightarrow> net \<Rightarrow> net" where
  "sendTo ws message n =
     (if n_open n ws then n\<lparr>n_sent := n_sent n @ [(ws, message)]\<rparr> else n)"

definition broadcastAll :: "(nat \<times> ClientState) list \<Rightarrow> OutgoingMessage \<Rightarrow> net \<Rightarrow> net" where
  "broadcastAll clients message n = foldl (\<lambda>n c. sendTo (fst c) message n) n clients"

definition handleTerminalEvent :: "nat \<Rightarrow> TerminalEvent \<Rightarrow> net \<Rightarrow> net" where
  "handleTerminalEvent ws ev n =
     (if te_type ev = TE_output then
        sendTo ws ((outgoing O_terminal_output)
                     \<lparr>o_sessionId := Some (te_sessionId ev),
                      o_data := (case te_data ev of None \<Rightarrow> NoData | Some d \<Rightarrow> Text d)\<rparr>) n
      else if te_type ev = TE_exit then
        sendTo ws ((outgoing O_terminal_exit)
                     \<lparr>o_sessionId := Some (te_sessionId ev), o_exitCode := te_exitCode ev\<rparr>) n
      else n)"

text \<open>Calling a callback of the gateway; none of them throws.\<close>

definition term_invoke :: "(term_cb, TerminalEvent, net) invoke" where
  "term_invoke cb ev n = (handleTerminalEvent (snd cb) ev n, None)"

definition chat_invoke :: "(chat_cb, CLIEvent, net) invoke" where
  "chat_invoke cb ev n =
     (sendTo (fst (snd cb))
        ((outgoing O_cli_chat_event)
           \<lparr>o_sessionId := Some (snd (snd cb)), o_data := EventJson ev\<rparr>) n,
      None)"

definition run_closure :: "closure \<Rightarrow> hub \<Rightarrow> hub" where
  "run_closure f h =
     (case f of
        TerminalUnsub u \<Rightarrow> h\<lparr>h_terminals := TerminalManager_unsubscribe u (h_terminals h)\<rparr>
      | ChatUnsub u \<Rightarrow> h\<lparr>h_chats := CLIChatManager_unsubscribe u (h_chats h)\<rparr>)"

definition reply :: "nat \<Rightarrow> OutgoingMessage \<Rightarrow> hub \<Rightarrow> hub" where
  "reply ws message h = h\<lparr>h_net := sendTo ws message (h_net h)\<rparr>"

definition errMessage :: "gateway_env \<Rightarrow> js_error \<Rightarrow> jsstring" where
  "errMessage env e =
     (case e of
        Error m \<Rightarrow> m
      | SystemError \<Rightarrow> g_systemErrorMessage env
      | _ \<Rightarrow> g_typeErrorMessage env)"

subsection \<open>The handlers of the commands\<close>

text \<open>
  One definition for each \<^verbatim>\<open>case\<close> of the \<^verbatim>\<open>switch (msg.type)\<close>. \<open>msg\<close> is the parsed
  message and \<open>cs\<close> the \<^verbatim>\<open>ClientState\<close> object of the socket, which lives in
  \<open>h_clients\<close> and is updated there. What a function of the state store throws outside
  a \<^verbatim>\<open>try\<close> rejects the promise of \<open>handleMessage\<close>.
\<close>

definition cmd_status :: "gateway_env \<Rightarrow> nat \<Rightarrow> hub \<Rightarrow> handle_result" where
  "cmd_status env ws h =
     (case loadState (g_JSON_parse env) (h_fs h) of
        (Inl e, fs1) \<Rightarrow> Rejected e (h\<lparr>h_fs := fs1\<rparr>)
      | (Inr state, fs1) \<Rightarrow>
          Returned (reply ws ((outgoing O_status)\<lparr>o_status := Some state\<rparr>) (h\<lparr>h_fs := fs1\<rparr>)))"

definition cmd_list_projects :: "gateway_env \<Rightarrow> nat \<Rightarrow> hub \<Rightarrow> handle_result" where
  "cmd_list_projects env ws h =
     (case loadState (g_JSON_parse env) (h_fs h) of
        (Inl e, fs1) \<Rightarrow> Rejected e (h\<lparr>h_fs := fs1\<rparr>)
      | (Inr state, fs1) \<Rightarrow>
          Returned (reply ws ((outgoing O_projects)
                                \<lparr>o_projects := getProp (JObj state) (ascii ''recentProjects'')\<rparr>)
                      (h\<lparr>h_fs := fs1\<rparr>)))"

text \<open>
  \<^verbatim>\<open>
  case 'switch-project':
    if (!msg.projectPath) { sendTo(ws, { type: 'error', data: 'projectPath required' }); return; }
    addRecentProject(msg.projectPath);
    updateState({ activeProject: msg.projectPath, status: 'ready' });
    broadcast({ type: 'ready', data: `Project loaded: ${msg.projectPath}` });
    broadcast({ type: 'status', status: loadState() });
  \<close>
\<close>

definition cmd_switch_project :: "gateway_env \<Rightarrow> nat \<Rightarrow> jsval \<Rightarrow> hub \<Rightarrow> handle_result" where
  "cmd_switch_project env ws msg h =
     (let projectPath = getProp msg (ascii ''projectPath'')
      in if \<not> truthy projectPath then
           Returned (reply ws (errorMessage (ascii ''projectPath required'')) h)
         else
           (case projectPath of
              JStr path \<Rightarrow>
                (case addRecentProject (g_JSON_parse env) (g_JSON_stringify env) projectPath
                        (h_fs h) of
                   (Some e, fs1) \<Rightarrow> Rejected e (h\<lparr>h_fs := fs1\<rparr>)
                 | (None, fs1) \<Rightarrow>
                     (case updateState (g_JSON_parse env) (g_JSON_stringify env)
                             [(ascii ''activeProject'', projectPath),
                              (ascii ''status'', JStr (ascii ''ready''))] fs1 of
                        (Inl e, fs2) \<Rightarrow> Rejected e (h\<lparr>h_fs := fs2\<rparr>)
                      | (Inr newState, fs2) \<Rightarrow>
                          (let n1 = broadcastAll (h_clients h)
                                      ((outgoing O_ready)
                                         \<lparr>o_data := Text (ascii ''Project loaded: '' @ path)\<rparr>)
                                      (h_net h)
                           in case loadState (g_JSON_parse env) fs2 of
                                (Inl e, fs3) \<Rightarrow> Rejected e (h\<lparr>h_fs := fs3, h_net := n1\<rparr>)
                              | (Inr state, fs3) \<Rightarrow>
                                  Returned
                                    (h\<lparr>h_fs := fs3,
                                       h_net := broadcastAll (h_clients h)
                                                  ((outgoing O_status)\<lparr>o_status := Some state\<rparr>)
                                                  n1\<rparr>))))
            | _ \<Rightarrow> OutsideInterface))"

text \<open>
  The \<^verbatim>\<open>'chat'\<close> case. The calls that \<^verbatim>\<open>streamGeminiResponse\<close> makes to its callbacks
  are all placed inside this one step, although other messages may be handled while the
  response streams.
\<close>

definition stream_send :: "nat \<Rightarrow> net \<Rightarrow> stream_call \<Rightarrow> net" where
  "stream_send ws n c =
     (case c of
        OnToken token \<Rightarrow> sendTo ws ((outgoing O_token)\<lparr>o_token := Some token\<rparr>) n
      | OnComplete fullText \<Rightarrow> sendTo ws ((outgoing O_complete)\<lparr>o_data := Text fullText\<rparr>) n
      | OnError message \<Rightarrow> sendTo ws (errorMessage message) n)"

definition cmd_chat :: "gateway_env \<Rightarrow> nat \<Rightarrow> jsval \<Rightarrow> hub \<Rightarrow> handle_result" where
  "cmd_chat env ws msg h =
     (let message = getProp msg (ascii ''message'')
      in if \<not> truthy message then
           Returned (reply ws (errorMessage (ascii ''message required'')) h)
         else
           (case message of
              JStr text \<Rightarrow>
                (case loadState (g_JSON_parse env) (h_fs h) of
                   (Inl e, fs1) \<Rightarrow> Rejected e (h\<lparr>h_fs := fs1\<rparr>)
                 | (Inr currentState, fs1) \<Rightarrow>
                     (let h1 = h\<lparr>h_fs := fs1\<rparr>;
                          activeProject = getProp (JObj currentState) (ascii ''activeProject'')
                      in if \<not> truthy activeProject then
                           Returned (reply ws (errorMessage
                                       (ascii ''No project selected. Switch to a project first.''))
                                       h1)
                         else
                           (let (calls, ending) =
                                  g_stream env text activeProject
                                    (getProp msg (ascii ''context''));
                                n1 = foldl (stream_send ws) (h_net h1) calls;
                                n2 = (case ending of
                                        Resolved \<Rightarrow> n1
                                      | RejectedError m \<Rightarrow> sendTo ws (errorMessage m) n1
                                      | RejectedOther \<Rightarrow>
                                          sendTo ws (errorMessage (ascii ''Unknown error'')) n1)
                            in Returned (h1\<lparr>h_net := n2\<rparr>))))
            | _ \<Rightarrow> OutsideInterface))"

definition cmd_stop :: "gateway_env \<Rightarrow> nat \<Rightarrow> hub \<Rightarrow> handle_result" where
  "cmd_stop env ws h =
     (case updateState (g_JSON_parse env) (g_JSON_stringify env)
             [(ascii ''activeProject'', JNull), (ascii ''status'', JStr (ascii ''idle''))]
             (h_fs h) of
        (Inl e, fs1) \<Rightarrow> Rejected e (h\<lparr>h_fs := fs1\<rparr>)
      | (Inr newState, fs1) \<Rightarrow>
          (case loadState (g_JSON_parse env) fs1 of
             (Inl e, fs2) \<Rightarrow> Rejected e (h\<lparr>h_fs := fs2\<rparr>)
           | (Inr state, fs2) \<Rightarrow>
               Returned (h\<lparr>h_fs := fs2,
                           h_net := broadcastAll (h_clients h)
                                      ((outgoing O_status)\<lparr>o_status := Some state\<rparr>)
                                      (h_net h)\<rparr>)))"

text \<open>
  \<^verbatim>\<open>
  case 'terminal-create':
    if (!msg.projectPath) { sendTo(ws, { type: 'error', data: 'projectPath required' }); return; }
    try {
      const session = terminalManager.getOrCreateSession(msg.projectPath);
      const unsubCreate = terminalManager.subscribe(session.id, (event) => {
        handleTerminalEvent(ws, event); });
      clientState.subscriptions.add(session.id);
      clientState.unsubscribeFns.set(session.id, unsubCreate);
      addRecentProject(msg.projectPath);
      sendTo(ws, { type: 'terminal-created', sessionId: session.id, data: session.projectName });
      broadcast({ type: 'terminal-list', sessions: terminalManager.listSessions() });
    } catch (err) {
      sendTo(ws, { type: 'error', data: `Failed to create terminal: ${err.message}` });
    }
  \<close>
  What was done before a statement throws stays done.
\<close>

definition cmd_terminal_create ::
  "gateway_env \<Rightarrow> nat \<Rightarrow> ClientState \<Rightarrow> jsval \<Rightarrow> hub \<Rightarrow> handle_result" where
  "cmd_terminal_create env ws cs msg h =
     (let projectPath = getProp msg (ascii ''projectPath'')
      in if \<not> truthy projectPath then
           Returned (reply ws (errorMessage (ascii ''projectPath required'')) h)
         else
           (case projectPath of
              JStr path \<Rightarrow>
                (case getOrCreateSession term_invoke (g_term env) path
                        (h_terminals h) (h_net h) of
                   (Inl e, tm1, n1) \<Rightarrow>
                     Returned (reply ws
                       (errorMessage (ascii ''Failed to create terminal: '' @ errMessage env e))
                       (h\<lparr>h_terminals := tm1, h_net := n1\<rparr>))
                 | (Inr a, tm1, n1) \<Rightarrow>
                     (let session = tm_heap tm1 a;
                          callback = (h_closures h, ws)
                      in case TerminalManager_subscribe term_invoke (t_id session) callback
                                tm1 n1 of
                           (Inl err, tm2, n2) \<Rightarrow>
                             Returned (reply ws
                               (errorMessage (ascii ''Failed to create terminal: ''
                                                @ toStr (getProp err (ascii ''message''))))
                               (h\<lparr>h_terminals := tm2, h_net := n2,
                                   h_closures := Suc (h_closures h)\<rparr>))
                         | (Inr unsubCreate, tm2, n2) \<Rightarrow>
                             (let cs' = cs\<lparr>cl_subscriptions :=
                                             Set_add (t_id session) (cl_subscriptions cs),
                                           cl_unsubscribeFns :=
                                             setProp (t_id session) (TerminalUnsub unsubCreate)
                                               (cl_unsubscribeFns cs)\<rparr>;
                                  h2 = h\<lparr>h_terminals := tm2, h_net := n2,
                                         h_closures := Suc (h_closures h),
                                         h_clients := setProp ws cs' (h_clients h)\<rparr>
                              in case addRecentProject (g_JSON_parse env) (g_JSON_stringify env)
                                        projectPath (h_fs h2) of
                                   (Some e, fs1) \<Rightarrow>
                                     Returned (reply ws
                                       (errorMessage (ascii ''Failed to create terminal: ''
                                                        @ errMessage env e))
                                       (h2\<lparr>h_fs := fs1\<rparr>))
                                 | (None, fs1) \<Rightarrow>
                                     (let h3 = reply ws
                                            ((outgoing O_terminal_created)
                                               \<lparr>o_sessionId := Some (t_id session),
                                                o_data := Text (t_projectName session)\<rparr>)
                                            (h2\<lparr>h_fs := fs1\<rparr>)
                                      in Returned
                                           (h3\<lparr>h_net := broadcastAll (h_clients h3)
                                                  ((outgoing O_terminal_list)
                                                     \<lparr>o_sessions := Some
                                                        (TerminalManager_listSessions
                                                           (h_terminals h3))\<rparr>)
                                                  (h_net h3)\<rparr>)))))
            | _ \<Rightarrow> OutsideInterface))"

definition cmd_terminal_write :: "gateway_env \<Rightarrow> nat \<Rightarrow> jsval \<Rightarrow> hub \<Rightarrow> handle_result" where
  "cmd_terminal_write env ws msg h =
     (let sessionId = getProp msg (ascii ''sessionId'');
          data = getProp msg (ascii ''data'')
      in if \<not> truthy sessionId \<or> data = JUndefined then
           Returned (reply ws (errorMessage (ascii ''sessionId and data required'')) h)
         else
           (case (sessionId, data) of
              (JStr sid, JStr d) \<Rightarrow>
                (let (ok, tm1) = TerminalManager_write (g_now env) sid d (h_terminals h);
                     h1 = h\<lparr>h_terminals := tm1\<rparr>
                 in if \<not> ok then
                      Returned (reply ws (errorMessage (ascii ''Session not found'')) h1)
                    else Returned h1)
            | _ \<Rightarrow> OutsideInterface))"

definition cmd_terminal_resize :: "gateway_env \<Rightarrow> nat \<Rightarrow> jsval \<Rightarrow> hub \<Rightarrow> handle_result" where
  "cmd_terminal_resize env ws msg h =
     (let sessionId = getProp msg (ascii ''sessionId'');
          cols = getProp msg (ascii ''cols'');
          rows = getProp msg (ascii ''rows'')
      in if \<not> truthy sessionId \<or> \<not> truthy cols \<or> \<not> truthy rows then
           Returned (reply ws (errorMessage (ascii ''sessionId, cols, and rows required'')) h)
         else
           (case (sessionId, cols, rows) of
              (JStr sid, JNum c, JNum r) \<Rightarrow>
                Returned (h\<lparr>h_terminals := snd (TerminalManager_resize sid c r (h_terminals h))\<rparr>)
            | _ \<Rightarrow> OutsideInterface))"

definition cmd_terminal_close :: "gateway_env \<Rightarrow> nat \<Rightarrow> jsval \<Rightarrow> hub \<Rightarrow> handle_result" where
  "cmd_terminal_close env ws msg h =
     (let sessionId = getProp msg (ascii ''sessionId'')
      in if \<not> truthy sessionId then
           Returned (reply ws (errorMessage (ascii ''sessionId required'')) h)
         else
           (case sessionId of
              JStr sid \<Rightarrow>
                Returned (reply ws ((outgoing O_terminal_closed)\<lparr>o_sessionId := Some sid\<rparr>)
                  (h\<lparr>h_terminals := snd (TerminalManager_close sid (h_terminals h))\<rparr>))
            | _ \<Rightarrow> OutsideInterface))"

definition cmd_terminal_list :: "gateway_env \<Rightarrow> nat \<Rightarrow> hub \<Rightarrow> handle_result" where
  "cmd_terminal_list env ws h =
     Returned (reply ws ((outgoing O_terminal_list)
                           \<lparr>o_sessions := Some (TerminalManager_listSessions (h_terminals h))\<rparr>) h)"

text \<open>
  \<^verbatim>\<open>
  case 'terminal-subscribe':
    if (!msg.sessionId) { ... 'sessionId required' ... }
    if (!clientState.subscriptions.has(msg.sessionId)) {
      const unsub = terminalManager.subscribe(msg.sessionId, (event) => {
        handleTerminalEvent(ws, event); });
      clientState.subscriptions.add(msg.sessionId);
      clientState.unsubscribeFns.set(msg.sessionId, unsub);
    }
  \<close>
\<close>

definition cmd_terminal_subscribe ::
  "gateway_env \<Rightarrow> nat \<Rightarrow> ClientState \<Rightarrow> jsval \<Rightarrow> hub \<Rightarrow> handle_result" where
  "cmd_terminal_subscribe env ws cs msg h =
     (let sessionId = getProp msg (ascii ''sessionId'')
      in if \<not> truthy sessionId then
           Returned (reply ws (errorMessage (ascii ''sessionId required'')) h)
         else
           (case sessionId of
              JStr sid \<Rightarrow>
                if sid \<notin> set (cl_subscriptions cs) then
                  (case TerminalManager_subscribe term_invoke sid (h_closures h, ws)
                          (h_terminals h) (h_net h) of
                     (Inl err, tm1, n1) \<Rightarrow>
                       Rejected (Error (toStr (getProp err (ascii ''message''))))
                         (h\<lparr>h_terminals := tm1, h_net := n1,
                             h_closures := Suc (h_closures h)\<rparr>)
                   | (Inr unsub, tm1, n1) \<Rightarrow>
                       Returned
                         (h\<lparr>h_terminals := tm1, h_net := n1,
                             h_closures := Suc (h_closures h),
                             h_clients := setProp ws
                               (cs\<lparr>cl_subscriptions := Set_add sid (cl_subscriptions cs),
                                   cl_unsubscribeFns :=
                                     setProp sid (TerminalUnsub unsub) (cl_unsubscribeFns cs)\<rparr>)
                               (h_clients h)\<rparr>))
                else Returned h
            | _ \<Rightarrow> OutsideInterface))"

text \<open>
  \<^verbatim>\<open>
  case 'terminal-unsubscribe':
    const unsubFn = clientState.unsubscribeFns.get(msg.sessionId);
    if (unsubFn) {
      unsubFn();
      clientState.subscriptions.delete(msg.sessionId);
      clientState.unsubscribeFns.delete(msg.sessionId);
    }
  \<close>
\<close>

definition cmd_terminal_unsubscribe ::
  "gateway_env \<Rightarrow> nat \<Rightarrow> ClientState \<Rightarrow> jsval \<Rightarrow> hub \<Rightarrow> handle_result" where
  "cmd_terminal_unsubscribe env ws cs msg h =
     (let sessionId = getProp msg (ascii ''sessionId'')
      in if \<not> truthy sessionId then
           Returned (reply ws (errorMessage (ascii ''sessionId required'')) h)
         else
           (case sessionId of
              JStr sid \<Rightarrow>
                (case map_of (cl_unsubscribeFns cs) sid of
                   None \<Rightarrow> Returned h
                 | Some unsubFn \<Rightarrow>
                     (let h1 = run_closure unsubFn h
                      in Returned
                           (h1\<lparr>h_clients := setProp ws
                                 (cs\<lparr>cl_subscriptions := Set_delete sid (cl_subscriptions cs),
                                     cl_unsubscribeFns := delProp sid (cl_unsubscribeFns cs)\<rparr>)
                                 (h_clients h1)\<rparr>)))
            | _ \<Rightarrow> OutsideInterface))"

definition cmd_terminal_run_gemini ::
  "gateway_env \<Rightarrow> nat \<Rightarrow> jsval \<Rightarrow> hub \<Rightarrow> handle_result" where
  "cmd_terminal_run_gemini env ws msg h =
     (let sessionId = getProp msg (ascii ''sessionId'')
      in if \<not> truthy sessionId then
           Returned (reply ws (errorMessage (ascii ''sessionId required'')) h)
         else
           (case sessionId of
              JStr sid \<Rightarrow>
                Returned (h\<lparr>h_terminals :=
                               snd (TerminalManager_runCommand (g_now env) sid (ascii ''gemini'')
                                      (h_terminals h))\<rparr>)
            | _ \<Rightarrow> OutsideInterface))"

text \<open>
  \<^verbatim>\<open>
  case 'cli-chat-create':
    if (!msg.projectPath) { ... 'projectPath required' ... }
    try {
      const chatSession = await cliChatManager.create(msg.projectPath);
      sendTo(ws, { type: 'cli-chat-created', sessionId: chatSession.id,
                   data: chatSession.model || 'gemini' });
    } catch (error) { ... }
  \<close>
  For a path that is a string nothing in \<open>create\<close> throws.
\<close>

definition cmd_cli_chat_create ::
  "gateway_env \<Rightarrow> nat \<Rightarrow> jsval \<Rightarrow> hub \<Rightarrow> handle_result" where
  "cmd_cli_chat_create env ws msg h =
     (let projectPath = getProp msg (ascii ''projectPath'')
      in if \<not> truthy projectPath then
           Returned (reply ws (errorMessage (ascii ''projectPath required'')) h)
         else
           (case projectPath of
              JStr path \<Rightarrow>
                (let (a, cm1, n1) =
                       CLIChatManager_create chat_invoke (g_now env) (g_chatId env)
                         (env_basename (g_term env)) path (h_chats h) (h_net h);
                     chatSession = cm_heap cm1 a
                 in Returned (reply ws
                      ((outgoing O_cli_chat_created)
                         \<lparr>o_sessionId := Some (c_id chatSession),
                          o_data := Text (case c_model chatSession of
                                            None \<Rightarrow> ascii ''gemini''
                                          | Some m \<Rightarrow> if m = [] then ascii ''gemini'' else m)\<rparr>)
                      (h\<lparr>h_chats := cm1, h_net := n1\<rparr>)))
            | _ \<Rightarrow> OutsideInterface))"

definition cmd_cli_chat_send :: "gateway_env \<Rightarrow> nat \<Rightarrow> jsval \<Rightarrow> hub \<Rightarrow> handle_result" where
  "cmd_cli_chat_send env ws msg h =
     (let sessionId = getProp msg (ascii ''sessionId'');
          message = getProp msg (ascii ''message'')
      in if \<not> truthy sessionId \<or> \<not> truthy message then
           Returned (reply ws (errorMessage (ascii ''sessionId and message required'')) h)
         else
           (case (sessionId, message) of
              (JStr sid, JStr text) \<Rightarrow>
                (case CLIChatManager_send chat_invoke (g_now env) (g_spawnRefused env) sid text
                        (h_chats h) (h_net h) of
                   (Inl e, cm1, n1) \<Rightarrow> Rejected e (h\<lparr>h_chats := cm1, h_net := n1\<rparr>)
                 | (Inr ok, cm1, n1) \<Rightarrow>
                     (let h1 = h\<lparr>h_chats := cm1, h_net := n1\<rparr>
                      in if \<not> ok then
                           Returned (reply ws (errorMessage (ascii ''Failed to send message'')) h1)
                         else Returned h1))
            | _ \<Rightarrow> OutsideInterface))"

text \<open>
  \<^verbatim>\<open>
  case 'cli-chat-subscribe':
    if (!msg.sessionId) { ... 'sessionId required' ... }
    const chatUnsub = cliChatManager.subscribe(msg.sessionId, (event) => {
      sendTo(ws, { type: 'cli-chat-event', sessionId: msg.sessionId,
                   data: JSON.stringify(event) }); });
    clientState.unsubscribeFns.set(`chat_${msg.sessionId}`, chatUnsub);
  \<close>
\<close>

definition cmd_cli_chat_subscribe ::
  "gateway_env \<Rightarrow> nat \<Rightarrow> ClientState \<Rightarrow> jsval \<Rightarrow> hub \<Rightarrow> handle_result" where
  "cmd_cli_chat_subscribe env ws cs msg h =
     (let sessionId = getProp msg (ascii ''sessionId'')
      in if \<not> truthy sessionId then
           Returned (reply ws (errorMessage (ascii ''sessionId required'')) h)
         else
           (case sessionId of
              JStr sid \<Rightarrow>
                (case CLIChatManager_subscribe chat_invoke (g_now env) sid
                        (h_closures h, ws, sid) (h_chats h) (h_net h) of
                   (Inl err, cm1, n1) \<Rightarrow>
                     Rejected (Error (toStr (getProp err (ascii ''message''))))
                       (h\<lparr>h_chats := cm1, h_net := n1, h_closures := Suc (h_closures h)\<rparr>)
                 | (Inr chatUnsub, cm1, n1) \<Rightarrow>
                     Returned
                       (h\<lparr>h_chats := cm1, h_net := n1, h_closures := Suc (h_closures h),
                           h_clients := setProp ws
                             (cs\<lparr>cl_unsubscribeFns :=
                                   setProp (ascii ''chat_'' @ sid) (ChatUnsub chatUnsub)
                                     (cl_unsubscribeFns cs)\<rparr>)
                             (h_clients h)\<rparr>))
            | _ \<Rightarrow> OutsideInterface))"

definition cmd_cli_chat_list :: "gateway_env \<Rightarrow> nat \<Rightarrow> hub \<Rightarrow> handle_result" where
  "cmd_cli_chat_list env ws h =
     Returned (reply ws ((outgoing O_cli_chat_list)
                           \<lparr>o_data := ChatListJson (CLIChatManager_listSessions (h_chats h))\<rparr>) h)"

definition cmd_cli_chat_close :: "gateway_env \<Rightarrow> nat \<Rightarrow> jsval \<Rightarrow> hub \<Rightarrow> handle_result" where
  "cmd_cli_chat_close env ws msg h =
     (let sessionId = getProp msg (ascii ''sessionId'')
      in if \<not> truthy sessionId then
           Returned (reply ws (errorMessage (ascii ''sessionId required'')) h)
         else
           (case sessionId of
              JStr sid \<Rightarrow> Returned (h\<lparr>h_chats := CLIChatManager_close sid (h_chats h)\<rparr>)
            | _ \<Rightarrow> OutsideInterface))"

subsection \<open>Dispatch and \<open>handleMessage\<close>\<close>

definition dispatch ::
  "gateway_env \<Rightarrow> nat \<Rightarrow> ClientState \<Rightarrow> jsval \<Rightarrow> hub \<Rightarrow> handle_result" where
  "dispatch env ws cs msg h =
     (let ty = getProp msg (ascii ''type'')
      in if ty = JStr (ascii ''status'') then cmd_status env ws h
         else if ty = JStr (ascii ''list-projects'') then cmd_list_projects env ws h
         else if ty = JStr (ascii ''switch-project'') then cmd_switch_project env ws msg h
         else if ty = JStr (ascii ''chat'') then cmd_chat env ws msg h
         else if ty = JStr (ascii ''stop'') then cmd_stop env ws h
         else if ty = JStr (ascii ''terminal-create'') then cmd_terminal_create env ws cs msg h
         else if ty = JStr (ascii ''terminal-write'') then cmd_terminal_write env ws msg h
         else if ty = JStr (ascii ''terminal-resize'') then cmd_terminal_resize env ws msg h
         else if ty = JStr (ascii ''terminal-close'') then cmd_terminal_close env ws msg h
         else if ty = JStr (ascii ''terminal-list'') then cmd_terminal_list env ws h
         else if ty = JStr (ascii ''terminal-subscribe'')
           then cmd_terminal_subscribe env ws cs msg h
         else if ty = JStr (ascii ''terminal-unsubscribe'')
           then cmd_terminal_unsubscribe env ws cs msg h
         else if ty = JStr (ascii ''terminal-run-gemini'')
           then cmd_terminal_run_gemini env ws msg h
         else if ty = JStr (ascii ''cli-chat-create'') then cmd_cli_chat_create env ws msg h
         else if ty = JStr (ascii ''cli-chat-send'') then cmd_cli_chat_send env ws msg h
         else if ty = JStr (ascii ''cli-chat-subscribe'')
           then cmd_cli_chat_subscribe env ws cs msg h
         else if ty = JStr (ascii ''cli-chat-list'') then cmd_cli_chat_list env ws h
         else if ty = JStr (ascii ''cli-chat-close'') then cmd_cli_chat_close env ws msg h
         else Returned (reply ws
                (errorMessage (ascii ''Unknown message type: '' @ toStr ty)) h))"

text \<open>
  \<^verbatim>\<open>
  async function handleMessage(ws: WebSocket, raw: string): Promise<void> {
    let msg: IncomingMessage;
    try { msg = JSON.parse(raw); }
    catch { sendTo(ws, { type: 'error', data: 'Invalid JSON' }); return; }
    // SECURITY: Validate auth token
    if (!validateToken(msg.token)) {
      console.warn('[Security] Invalid auth token received');
      sendTo(ws, { type: 'error', data: 'Invalid auth token' });
      return;
    }
    const clientState = clients.get(ws);
    if (!clientState) return;
    switch (msg.type) { ... }
  }
  \<close>
  \<^verbatim>\<open>JSON.parse\<close> accepts the text \<^verbatim>\<open>null\<close>; reading \<^verbatim>\<open>msg.token\<close> of \<^verbatim>\<open>null\<close> throws a
  TypeError outside the \<^verbatim>\<open>try\<close>, which rejects the promise of \<open>handleMessage\<close>; so
  does what \<open>validateToken\<close> throws.
\<close>

definition handleMessage :: "gateway_env \<Rightarrow> nat \<Rightarrow> jsstring \<Rightarrow> hub \<Rightarrow> handle_result" where
  "handleMessage env ws raw h =
     (case g_JSON_parse env raw of
        None \<Rightarrow> Returned (reply ws (errorMessage (ascii ''Invalid JSON'')) h)
      | Some msg \<Rightarrow>
          if nullish msg then Rejected TypeError h
          else
            (case validateToken (g_uuid env) (getProp msg (ascii ''token'')) (h_fs h) of
               (Inl e, fs1) \<Rightarrow> Rejected e (h\<lparr>h_fs := fs1\<rparr>)
             | (Inr valid, fs1) \<Rightarrow>
                 (let h1 = h\<lparr>h_fs := fs1\<rparr>
                  in if \<not> valid then
                       Returned (reply ws (errorMessage (ascii ''Invalid auth token'')) h1)
                     else
                       (case map_of (h_clients h1) ws of
                          None \<Rightarrow> Returned h1
                        | Some clientState \<Rightarrow> dispatch env ws clientState msg h1))))"

subsection \<open>A concrete daemon\<close>

text \<open>
  One open socket 0, subscribed to the terminal session \<^verbatim>\<open>term_1\<close> of the project
  \<^verbatim>\<open>/p\<close>; the token file holds \<^verbatim>\<open>ah_secret\<close>; there is no state file. \<open>example_env\<close>
  knows the JSON value of three texts.
\<close>

definition example_hub :: hub where
  "example_hub =
     \<lparr>h_fs = \<lparr>stateDir = True, mkdirFails = False, writeFails = False,
              authTokenFile = Contents (ascii ''ah_secret''), stateFile = Absent\<rparr>,
      h_terminals =
        \<lparr>tm_heap = (\<lambda>a. \<lparr>t_id = ascii ''term_1'', t_projectPath = ascii ''/p'',
                           t_projectName = ascii ''p'', t_ptyProcess = 7, t_buffer = [],
                           t_maxBufferLines = 5000, t_createdAt = 0, t_lastActivity = 0,
                           t_subscribers = [(0, 0)]\<rparr>),
         tm_next = 1, tm_sessions = [(ascii ''term_1'', 0)],
         tm_projectToSession = [(ascii ''/p'', ascii ''term_1'')],
         tm_shell = ascii ''bash'', tm_pty = [], tm_console = []\<rparr>,
      h_chats =
        \<lparr>cm_heap = (\<lambda>a. \<lparr>c_id = [], c_projectPath = [], c_projectName = [],
                           c_subscribers = [], c_isReady = True, c_model = None,
                           c_createdAt = 0, c_currentProcess = None,
                           c_conversationHistory = []\<rparr>),
         cm_next = 0, cm_sessions = [], cm_geminiPath = ascii ''gemini'',
         cm_processes = [], cm_killed = [], cm_console = []\<rparr>,
      h_clients =
        [(0, \<lparr>cl_subscriptions = [ascii ''term_1''],
               cl_unsubscribeFns =
                 [(ascii ''term_1'', TerminalUnsub (DeleteSubscriber 0 (0, 0)))]\<rparr>)],
      h_net = \<lparr>n_open = (\<lambda>ws. True), n_sent = []\<rparr>,
      h_closures = 1\<rparr>"

definition example_env :: gateway_env where
  \<open>example_env =
     \<lparr>g_JSON_parse = map_of
        [(ascii ''null'', JNull),
         (ascii ''{"type":"terminal-close","token":"bad","sessionId":"term_1"}'',
          JObj [(ascii ''type'', JStr (ascii ''terminal-close'')),
                (ascii ''token'', JStr (ascii ''bad'')),
                (ascii ''sessionId'', JStr (ascii ''term_1''))]),
         (ascii ''{"type":"terminal-close","token":"ah_secret","sessionId":"term_1"}'',
          JObj [(ascii ''type'', JStr (ascii ''terminal-close'')),
                (ascii ''token'', JStr (ascii ''ah_secret'')),
                (ascii ''sessionId'', JStr (ascii ''term_1''))])],
      g_JSON_stringify = (\<lambda>v. []),
      g_uuid = [],
      g_now = 9,
      g_term = \<lparr>env_now = 9, env_existsSync = (\<lambda>p. True), env_basename = (\<lambda>p. p),
                env_generateId = ascii ''term_2'', env_spawn = Inr 8\<rparr>,
      g_chatId = ascii ''chat_2'',
      g_spawnRefused = False,
      g_typeErrorMessage = [],
      g_systemErrorMessage = [],
      g_stream = (\<lambda>prompt project context. ([], Resolved))\<rparr>\<close>

subsection \<open>Properties of the gateway\<close>

lemma validateToken_stateFile [simp]:
  "stateDir fs \<Longrightarrow> stateFile (snd (validateToken uuid token fs)) = stateFile fs"
  by (simp add: validateToken_def getAuthToken_def ensureStateDir_def Let_def
      split: diskfile.splits)

lemma validateToken_existing_token:
  "authTokenFile fs = Contents text \<Longrightarrow> stateDir fs
   \<Longrightarrow> validateToken uuid token fs = (Inr (strictEq token (JStr (trim text))), fs)"
  by (simp add: validateToken_def getAuthToken_def ensureStateDir_def Let_def)

text \<open>
  A message that parses to a value other than \<^verbatim>\<open>null\<close> and whose token is refused:
  the handler returns after handing the error message to \<open>sendTo\<close>. The registries, the
  clients and the state file are as before; the only file that \<open>validateToken\<close> can
  write is the token file, when there is none.
\<close>

lemma handleMessage_invalid_token:
  assumes "g_JSON_parse env raw = Some msg" and "\<not> nullish msg"
    and "fst (validateToken (g_uuid env) (getProp msg (ascii ''token'')) (h_fs h)) = Inr False"
  shows "handleMessage env ws raw h
    = Returned (h\<lparr>h_fs := snd (validateToken (g_uuid env) (getProp msg (ascii ''token'')) (h_fs h)),
                  h_net := sendTo ws (errorMessage (ascii ''Invalid auth token'')) (h_net h)\<rparr>)"
proof -
  obtain r fs1
    where v: "validateToken (g_uuid env) (getProp msg (ascii ''token'')) (h_fs h) = (r, fs1)"
    by (cases "validateToken (g_uuid env) (getProp msg (ascii ''token'')) (h_fs h)")
  with assms(3) have r: "r = Inr False" by simp
  from assms(1,2) show ?thesis
    by (simp add: handleMessage_def v r reply_def)
qed

lemma handleMessage_invalid_JSON:
  assumes "g_JSON_parse env raw = None"
  shows "handleMessage env ws raw h
    = Returned (h\<lparr>h_net := sendTo ws (errorMessage (ascii ''Invalid JSON'')) (h_net h)\<rparr>)"
  using assms by (simp add: handleMessage_def reply_def)

lemma handleMessage_null:
  assumes "g_JSON_parse env raw = Some JNull"
  shows "handleMessage env ws raw h = Rejected TypeError h"
  using assms by (simp add: handleMessage_def nullish_def)

lemma trim_ah_secret: "trim (ascii ''ah_secret'') = ascii ''ah_secret''"
  by (simp add: trim_def ascii_def isWhiteSpace_def)

lemma example_validateToken:
  "validateToken (g_uuid example_env) token (h_fs example_hub)
   = (Inr (token = JStr (ascii ''ah_secret'')), h_fs example_hub)"
  by (cases token)
     (auto simp: validateToken_def getAuthToken_def ensureStateDir_def example_hub_def
        trim_ah_secret Let_def)

text \<open>On the concrete daemon: a refused token, and the same command with the right token.\<close>

lemma example_bad_token:
  \<open>handleMessage example_env 0
     (ascii ''{"type":"terminal-close","token":"bad","sessionId":"term_1"}'') example_hub
   = Returned (example_hub
       \<lparr>h_net := sendTo 0 (errorMessage (ascii ''Invalid auth token''))
                   (h_net example_hub)\<rparr>)\<close>
proof -
  let ?raw = \<open>ascii ''{"type":"terminal-close","token":"bad","sessionId":"term_1"}''\<close>
  let ?msg = "JObj [(ascii ''type'', JStr (ascii ''terminal-close'')),
                    (ascii ''token'', JStr (ascii ''bad'')),
                    (ascii ''sessionId'', JStr (ascii ''term_1''))]"
  have p: "g_JSON_parse example_env ?raw = Some ?msg"
    by (simp add: example_env_def)
  have n: "\<not> nullish ?msg" by (simp add: nullish_def)
  have v: "fst (validateToken (g_uuid example_env) (getProp ?msg (ascii ''token''))
                  (h_fs example_hub)) = Inr False"
    by (simp add: example_validateToken)
  show ?thesis
    unfolding handleMessage_invalid_token [OF p n v]
    by (simp add: example_validateToken)
qed

lemma example_good_token:
  \<open>\<exists>h'. handleMessage example_env 0
     (ascii ''{"type":"terminal-close","token":"ah_secret","sessionId":"term_1"}'') example_hub
       = Returned h'
     \<and> tm_sessions (h_terminals h') = []
     \<and> tm_pty (h_terminals h') = [PtyKill 7]
     \<and> map (\<lambda>m. (fst m, o_type (snd m))) (n_sent (h_net h')) = [(0, O_terminal_closed)]\<close>
  by (simp add: handleMessage_def example_env_def nullish_def validateToken_def
      getAuthToken_def ensureStateDir_def example_hub_def reply_def sendTo_def Let_def
      trim_ah_secret dispatch_def cmd_terminal_close_def TerminalManager_close_def
      TerminalManager_getSession_def delProp_def outgoing_def)

text \<open>
  C5. The text \<^verbatim>\<open>null\<close> is a message without a token. \<^verbatim>\<open>JSON.parse\<close> accepts it, and
  \<^verbatim>\<open>msg.token\<close> then throws before \<open>validateToken\<close> is called: the promise of
  \<open>handleMessage\<close> is rejected and nothing is sent to the connection.
\<close>

theorem C5_null_message_rejected:
  "g_JSON_parse example_env (ascii ''null'') = Some JNull
   \<and> handleMessage example_env 0 (ascii ''null'') example_hub = Rejected TypeError example_hub
   \<and> n_open (h_net example_hub) 0
   \<and> n_sent (h_net example_hub) = []"
proof -
  have p: "g_JSON_parse example_env (ascii ''null'') = Some JNull"
    by (simp add: example_env_def)
  have h: "n_open (h_net example_hub) 0" "n_sent (h_net example_hub) = []"
    by (simp_all add: example_hub_def)
  from p h handleMessage_null [OF p, of 0 example_hub] show ?thesis by simp
qed

end
